theory Spec2Isabelle
  imports Main
begin

section \<open>JavaScript calls that may throw\<close>

text \<open>
  A call either returns or throws. Both outcomes carry the page state at that point,
  since an uncaught exception leaves every mutation made before it in place.
\<close>

datatype js_error = TypeError | QuotaExceededError | SecurityError

datatype 'a outcome = Returned 'a | Thrown js_error 'a

fun after :: "'a outcome \<Rightarrow> 'a" where
  "after (Returned s) = s"
| "after (Thrown e s) = s"

fun returned :: "'a outcome \<Rightarrow> bool" where
  "returned (Returned s) = True"
| "returned (Thrown e s) = False"

fun and_then :: "'a outcome \<Rightarrow> ('a \<Rightarrow> 'a outcome) \<Rightarrow> 'a outcome" where
  "and_then (Returned s) f = f s"
| "and_then (Thrown e s) f = Thrown e s"

text \<open>Truthiness of a value that is \<open>null\<close> or a string, and \<open>v || 'light'\<close>.\<close>

fun truthy :: "string option \<Rightarrow> bool" where
  "truthy None = False"
| "truthy (Some v) = (v \<noteq> [])"

definition or_light :: "string option \<Rightarrow> string" where
  "or_light v = (if truthy v then the v else ''light'')"

text \<open>Conversion of a possibly \<open>undefined\<close> value inside a template literal.\<close>

fun js_string :: "string option \<Rightarrow> string" where
  "js_string None = ''undefined''"
| "js_string (Some v) = v"

section \<open>The page as the two theme managers see it\<close>

text \<open>
  \<open>localStorage\<close> holds the single key \<open>theme\<close>. The browser decides whether an access
  throws: never (\<open>Working\<close>), on every write (\<open>Full\<close>, the quota is exhausted), or on
  every access (\<open>Denied\<close>, storage is disabled).
\<close>

datatype storage_mode = Working | Full | Denied

text \<open>
  The toggle control: the class of its \<open>i\<close> child and the text of its \<open>span\<close> child
  (\<open>None\<close> when the child is missing), and its \<open>aria-label\<close> attribute.
\<close>

record button =
  icon_className :: "string option"
  span_textContent :: "string option"
  aria_label :: "string option"

text \<open>
  \<open>data_theme\<close> is the \<open>data-theme\<close> attribute of the root element, \<open>events\<close> the
  details of the \<open>themeChanged\<close> events dispatched so far, oldest first. In theme.js
  \<open>toggleButton\<close> is the manager's own field; in theme-toggle.js it is the element
  \<open>#themeToggle\<close>, looked up on every use.
\<close>

record theme_page =
  data_theme :: "string option"
  mode :: storage_mode
  item :: "string option"
  toggleButton :: "button option"
  events :: "string list"

definition getItem :: "'a theme_page_scheme \<Rightarrow> js_error + string option" where
  "getItem s = (if mode s = Denied then Inl SecurityError else Inr (item s))"

definition setItem :: "'a theme_page_scheme \<Rightarrow> string \<Rightarrow> 'a theme_page_scheme outcome" where
  "setItem s v =
     (case mode s of
        Denied \<Rightarrow> Thrown SecurityError s
      | Full \<Rightarrow> Thrown QuotaExceededError s
      | Working \<Rightarrow> Returned (s\<lparr>item := Some v\<rparr>))"

definition removeItem :: "'a theme_page_scheme \<Rightarrow> 'a theme_page_scheme outcome" where
  "removeItem s =
     (if mode s = Denied then Thrown SecurityError s else Returned (s\<lparr>item := None\<rparr>))"

definition dispatchThemeChange :: "'a theme_page_scheme \<Rightarrow> string \<Rightarrow> 'a theme_page_scheme" where
  "dispatchThemeChange s theme = s\<lparr>events := events s @ [theme]\<rparr>"

subsection \<open>The theme table\<close>

text \<open>
  The display names of the source are Chinese; they are written here as English glosses
  (\<open>light mode\<close>, \<open>dark mode\<close>, \<open>switch to\<close>, \<open>switch theme\<close>).
\<close>

record theme_config =
  name :: string
  icon :: string
  css_class :: string

definition themes :: "(string \<times> theme_config) list" where
  "themes =
     [(''light'', \<lparr>name = ''light mode'', icon = ''bi-sun-fill'', css_class = ''''\<rparr>),
      (''dark'', \<lparr>name = ''dark mode'', icon = ''bi-moon-fill'', css_class = ''dark''\<rparr>)]"

text \<open>
  \<open>themes\<close> is an object literal, so \<open>this.themes[theme]\<close> also finds the members it
  inherits from \<open>Object.prototype\<close>: for these twelve names the lookup is a function or an
  object, hence truthy, and not \<open>undefined\<close>.
\<close>

definition Object_prototype :: "string list" where
  "Object_prototype =
     [''constructor'', ''toString'', ''toLocaleString'', ''valueOf'', ''hasOwnProperty'',
      ''isPrototypeOf'', ''propertyIsEnumerable'', ''__proto__'', ''__defineGetter__'',
      ''__defineSetter__'', ''__lookupGetter__'', ''__lookupSetter__'']"

datatype js_member = Own theme_config | Inherited string

definition themes_get :: "string \<Rightarrow> js_member option" where
  "themes_get theme =
     (case map_of themes theme of
        Some c \<Rightarrow> Some (Own c)
      | None \<Rightarrow> if theme \<in> set Object_prototype then Some (Inherited theme) else None)"

text \<open>
  \<open>themeConfig.icon\<close> and \<open>themeConfig.name\<close>; \<open>None\<close> is \<open>undefined\<close>. An inherited
  function has no \<open>icon\<close> and its own \<open>name\<close>; \<open>__proto__\<close> is the prototype object.
\<close>

fun get_icon :: "js_member \<Rightarrow> string option" where
  "get_icon (Own c) = Some (icon c)"
| "get_icon (Inherited k) = None"

fun get_name :: "js_member \<Rightarrow> string option" where
  "get_name (Own c) = Some (name c)"
| "get_name (Inherited k) =
     (if k = ''__proto__'' then None
      else if k = ''constructor'' then Some ''Object''
      else Some k)"

section \<open>theme.js\<close>

text \<open>
  The manager of theme.js keeps no theme of its own: the current theme is the
  \<open>data-theme\<close> attribute. Its functions carry the prefix \<open>th_\<close>, those of
  theme-toggle.js the prefix \<open>tt_\<close>, since both files call their object
  \<open>ThemeManager\<close> and give its methods the same names.
\<close>

definition th_updateToggleButton :: "theme_page \<Rightarrow> string \<Rightarrow> theme_page outcome" where
  "th_updateToggleButton s theme =
     (case toggleButton s of
        None \<Rightarrow> Returned s
      | Some b \<Rightarrow>
          (case themes_get theme of
             None \<Rightarrow> Thrown TypeError s
           | Some themeConfig \<Rightarrow>
               let b1 = (case icon_className b of
                           None \<Rightarrow> b
                         | Some _ \<Rightarrow> b\<lparr>icon_className := Some (js_string (get_icon themeConfig))\<rparr>)
               in Returned (s\<lparr>toggleButton := Some (b1\<lparr>aria_label :=
                     Some (''switch to '' @ js_string (get_name themeConfig))\<rparr>)\<rparr>)))"

definition th_setTheme :: "theme_page \<Rightarrow> string \<Rightarrow> bool \<Rightarrow> theme_page outcome" where
  "th_setTheme s theme save =
     (let currentTheme = data_theme s in
      if currentTheme = Some theme then Returned s
      else
        let s1 = (if truthy currentTheme then s\<lparr>data_theme := None\<rparr> else s);
            s2 = (if theme = ''dark'' then s1\<lparr>data_theme := Some ''dark''\<rparr> else s1)
        in and_then (th_updateToggleButton s2 theme) (\<lambda>s3.
           and_then (if save then setItem s3 theme else Returned s3) (\<lambda>s4.
           Returned (dispatchThemeChange s4 theme))))"

definition th_loadTheme :: "theme_page \<Rightarrow> theme_page outcome" where
  "th_loadTheme s =
     (case getItem s of
        Inl e \<Rightarrow> Thrown e s
      | Inr v \<Rightarrow> th_setTheme s (or_light v) False)"

definition th_toggleTheme :: "theme_page \<Rightarrow> theme_page outcome" where
  "th_toggleTheme s =
     (let currentTheme = or_light (data_theme s);
          newTheme = (if currentTheme = ''light'' then ''dark'' else ''light'')
      in th_setTheme s newTheme True)"

definition th_createThemeToggle :: "theme_page \<Rightarrow> theme_page" where
  "th_createThemeToggle s =
     s\<lparr>toggleButton := Some \<lparr>icon_className = Some ''bi bi-sun-fill'',
                               span_textContent = None,
                               aria_label = Some ''switch theme''\<rparr>\<rparr>"

text \<open>The listener that \<open>bindEvents\<close> puts on the media query; \<open>matches\<close> is \<open>e.matches\<close>.\<close>

definition th_mediaQuery_change :: "theme_page \<Rightarrow> bool \<Rightarrow> theme_page outcome" where
  "th_mediaQuery_change s matches =
     (case getItem s of
        Inl e \<Rightarrow> Thrown e s
      | Inr v \<Rightarrow>
          if \<not> truthy v then th_setTheme s (if matches then ''dark'' else ''light'') True
          else Returned s)"

text \<open>\<open>init\<close>; what \<open>bindEvents\<close> registers are \<open>th_toggleTheme\<close> and \<open>th_mediaQuery_change\<close>.\<close>

definition th_init :: "theme_page \<Rightarrow> theme_page outcome" where
  "th_init s = and_then (th_loadTheme s) (\<lambda>s1. Returned (th_createThemeToggle s1))"

definition th_getCurrentTheme :: "theme_page \<Rightarrow> string" where
  "th_getCurrentTheme s = or_light (data_theme s)"

definition th_reset :: "theme_page \<Rightarrow> theme_page outcome" where
  "th_reset s = and_then (removeItem s) (\<lambda>s1. th_setTheme s1 ''light'' True)"

section \<open>theme-toggle.js\<close>

record toggle_manager = theme_page +
  currentTheme :: string

definition tt_updateUI :: "toggle_manager \<Rightarrow> toggle_manager outcome" where
  "tt_updateUI s =
     (case toggleButton s of
        None \<Rightarrow> Returned s
      | Some b \<Rightarrow>
          let label = (''switch to '' @ (if currentTheme s = ''light'' then ''dark'' else ''light'')
                        @ '' mode'')
          in (case themes_get (currentTheme s) of
               None \<Rightarrow>
                 if icon_className b \<noteq> None \<or> span_textContent b \<noteq> None then Thrown TypeError s
                 else Returned (s\<lparr>toggleButton := Some (b\<lparr>aria_label := Some label\<rparr>)\<rparr>)
             | Some themeConfig \<Rightarrow>
                 let b1 = (case icon_className b of
                             None \<Rightarrow> b
                           | Some _ \<Rightarrow> b\<lparr>icon_className :=
                                         Some (''bi '' @ js_string (get_icon themeConfig))\<rparr>);
                     b2 = (case span_textContent b1 of
                             None \<Rightarrow> b1
                           | Some _ \<Rightarrow> b1\<lparr>span_textContent :=
                                          Some (case get_name themeConfig of
                                                  None \<Rightarrow> [] | Some n \<Rightarrow> n)\<rparr>)
                 in Returned (s\<lparr>toggleButton := Some (b2\<lparr>aria_label := Some label\<rparr>)\<rparr>)))"

definition tt_setTheme :: "toggle_manager \<Rightarrow> string \<Rightarrow> bool \<Rightarrow> toggle_manager outcome" where
  "tt_setTheme s theme save =
     (if themes_get theme = None then Returned s
      else
        let oldTheme = currentTheme s;
            s1 = (if oldTheme = ''dark'' then s\<lparr>data_theme := None\<rparr> else s);
            s2 = (if theme = ''dark'' then s1\<lparr>data_theme := Some ''dark''\<rparr> else s1);
            s3 = s2\<lparr>currentTheme := theme\<rparr>
        in and_then (if save then setItem s3 theme else Returned s3) (\<lambda>s4.
           and_then (tt_updateUI s4) (\<lambda>s5.
           Returned (dispatchThemeChange s5 theme))))"

definition tt_loadTheme :: "toggle_manager \<Rightarrow> toggle_manager outcome" where
  "tt_loadTheme s =
     (case getItem s of
        Inl e \<Rightarrow> Thrown e s
      | Inr v \<Rightarrow> tt_setTheme s (or_light v) False)"

definition tt_toggleTheme :: "toggle_manager \<Rightarrow> toggle_manager outcome" where
  "tt_toggleTheme s =
     (let newTheme = (if currentTheme s = ''light'' then ''dark'' else ''light'')
      in tt_setTheme s newTheme True)"

definition tt_mediaQuery_change :: "toggle_manager \<Rightarrow> bool \<Rightarrow> toggle_manager outcome" where
  "tt_mediaQuery_change s matches =
     (case getItem s of
        Inl e \<Rightarrow> Thrown e s
      | Inr v \<Rightarrow>
          if \<not> truthy v then tt_setTheme s (if matches then ''dark'' else ''light'') True
          else Returned s)"

definition tt_init :: "toggle_manager \<Rightarrow> toggle_manager outcome" where
  "tt_init s = and_then (tt_loadTheme s) tt_updateUI"

definition tt_getCurrentTheme :: "toggle_manager \<Rightarrow> string" where
  "tt_getCurrentTheme s = currentTheme s"

section \<open>Executions of the theme managers\<close>

text \<open>
  What a page can do to a theme manager: run \<open>init\<close>, call \<open>setTheme\<close> with any string and
  either flag, call \<open>toggleTheme\<close> (a click on the toggle control), deliver a change of the
  operating system's colour scheme to the media-query listener, and call \<open>reset\<close>. Each
  step starts from the state the previous one left, whether it returned or threw: every
  step is an event handler or a call of its own.
\<close>

datatype action = Init | SetTheme string bool | ToggleTheme | MediaChange bool | Reset

fun th_step :: "theme_page \<Rightarrow> action \<Rightarrow> theme_page outcome" where
  "th_step s Init = th_init s"
| "th_step s (SetTheme theme save) = th_setTheme s theme save"
| "th_step s ToggleTheme = th_toggleTheme s"
| "th_step s (MediaChange matches) = th_mediaQuery_change s matches"
| "th_step s Reset = th_reset s"

text \<open>The manager of theme-toggle.js has no \<open>reset\<close>: calling it is a TypeError.\<close>

fun tt_step :: "toggle_manager \<Rightarrow> action \<Rightarrow> toggle_manager outcome" where
  "tt_step s Init = tt_init s"
| "tt_step s (SetTheme theme save) = tt_setTheme s theme save"
| "tt_step s ToggleTheme = tt_toggleTheme s"
| "tt_step s (MediaChange matches) = tt_mediaQuery_change s matches"
| "tt_step s Reset = Thrown TypeError s"

fun th_run :: "theme_page \<Rightarrow> action list \<Rightarrow> theme_page" where
  "th_run s [] = s"
| "th_run s (a # as) = th_run (after (th_step s a)) as"

fun tt_run :: "toggle_manager \<Rightarrow> action list \<Rightarrow> toggle_manager" where
  "tt_run s [] = s"
| "tt_run s (a # as) = tt_run (after (tt_step s a)) as"

text \<open>
  Every change of the operating system's colour scheme in the execution leaves the
  current theme as it was.
\<close>

fun th_os_ignored :: "theme_page \<Rightarrow> action list \<Rightarrow> bool" where
  "th_os_ignored s [] = True"
| "th_os_ignored s (MediaChange m # as) =
     (th_getCurrentTheme (after (th_step s (MediaChange m))) = th_getCurrentTheme s
      \<and> th_os_ignored (after (th_step s (MediaChange m))) as)"
| "th_os_ignored s (a # as) = th_os_ignored (after (th_step s a)) as"

fun tt_os_ignored :: "toggle_manager \<Rightarrow> action list \<Rightarrow> bool" where
  "tt_os_ignored s [] = True"
| "tt_os_ignored s (MediaChange m # as) =
     (tt_getCurrentTheme (after (tt_step s (MediaChange m))) = tt_getCurrentTheme s
      \<and> tt_os_ignored (after (tt_step s (MediaChange m))) as)"
| "tt_os_ignored s (a # as) = tt_os_ignored (after (tt_step s a)) as"

text \<open>
  The page as loaded, before \<open>init\<close>: no \<open>data-theme\<close> attribute, nothing dispatched, the
  storage in any mode and with any content. theme.js creates its toggle control itself;
  theme-toggle.js finds the control \<open>b\<close> in the page, or none.
\<close>

definition th_loaded :: "storage_mode \<Rightarrow> string option \<Rightarrow> theme_page" where
  "th_loaded m v = \<lparr>data_theme = None, mode = m, item = v, toggleButton = None, events = []\<rparr>"

definition tt_loaded :: "storage_mode \<Rightarrow> string option \<Rightarrow> button option \<Rightarrow> toggle_manager" where
  "tt_loaded m v b =
     \<lparr>data_theme = None, mode = m, item = v, toggleButton = b, events = [],
      currentTheme = ''light''\<rparr>"

text \<open>
  The states a manager reaches from the loaded page, by any steps with any arguments.
\<close>

inductive th_reachable :: "theme_page \<Rightarrow> bool" where
  th_start: "th_reachable (th_loaded m v)"
| th_next: "th_reachable s \<Longrightarrow> th_reachable (after (th_step s a))"

inductive tt_reachable :: "toggle_manager \<Rightarrow> bool" where
  tt_start: "tt_reachable (tt_loaded m v b)"
| tt_next: "tt_reachable s \<Longrightarrow> tt_reachable (after (tt_step s a))"

text \<open>
  What holds in every reachable state. In theme-toggle.js the attribute is \<open>dark\<close> when
  the in-memory theme is \<open>dark\<close> and absent otherwise; in theme.js the attribute is absent
  or \<open>dark\<close>.
\<close>

definition tt_inv :: "toggle_manager \<Rightarrow> bool" where
  "tt_inv s \<longleftrightarrow> data_theme s = (if currentTheme s = ''dark'' then Some ''dark'' else None)"

definition th_inv :: "theme_page \<Rightarrow> bool" where
  "th_inv s \<longleftrightarrow> data_theme s = None \<or> data_theme s = Some ''dark''"

section \<open>The document as the responsive manager sees it\<close>

text \<open>
  The classes, the identifier and the inline style of an element are all the code reads
  or writes. The inline style is a record of the properties the code assigns; the empty
  string is a property that is not set. \<open>nid\<close> is the identity of the node: what a
  variable holding the element refers to, whatever becomes of its attributes.
\<close>

record css =
  marginBottom :: string
  padding :: string
  fontSize :: string
  minHeight :: string
  overflowX :: string
  webkitOverflowScrolling :: string

record node =
  nid :: nat
  tag :: string
  el_id :: string
  classList :: "string list"
  style :: css

datatype 'a dom = Element 'a "'a dom list"

type_synonym element = "node dom"

text \<open>\<open>classList.add\<close>, \<open>classList.remove\<close> and \<open>classList.toggle\<close> with its force argument.\<close>

definition classList_add :: "string \<Rightarrow> string list \<Rightarrow> string list" where
  "classList_add c cs = (if c \<in> set cs then cs else cs @ [c])"

definition classList_remove :: "string \<Rightarrow> string list \<Rightarrow> string list" where
  "classList_remove c cs = removeAll c cs"

definition classList_toggle :: "string \<Rightarrow> bool \<Rightarrow> string list \<Rightarrow> string list" where
  "classList_toggle c force cs = (if force then classList_add c cs else classList_remove c cs)"

text \<open>The elements of a subtree in document order, and those below \<open>body\<close>.\<close>

fun nodes :: "'a dom \<Rightarrow> 'a list" where
  "nodes (Element a ch) = a # concat (map nodes ch)"

definition all_nodes :: "'a dom list \<Rightarrow> 'a list" where
  "all_nodes d = concat (map nodes d)"

text \<open>
  \<open>querySelectorAll('.c')\<close>, \<open>querySelector('.c')\<close> and \<open>getElementById(i)\<close>, over the
  elements below \<open>body\<close>: the root, head and body elements are taken to carry none of the
  classes and identifiers asked for. A result is the element as it is at the time of the
  query; its \<open>nid\<close> is the reference through which it is changed.
\<close>

definition querySelectorAll :: "string \<Rightarrow> element list \<Rightarrow> node list" where
  "querySelectorAll c d = filter (\<lambda>a. c \<in> set (classList a)) (all_nodes d)"

definition querySelector :: "string \<Rightarrow> element list \<Rightarrow> node option" where
  "querySelector c d = (case querySelectorAll c d of [] \<Rightarrow> None | e # _ \<Rightarrow> Some e)"

definition getElementById :: "string \<Rightarrow> element list \<Rightarrow> node option" where
  "getElementById i d =
     (case filter (\<lambda>a. el_id a = i) (all_nodes d) of [] \<Rightarrow> None | e # _ \<Rightarrow> Some e)"

text \<open>
  An assignment through a reference changes the node with that identity; \<open>forEach\<close> runs
  over the list the query returned, which does not change while the loop runs. In a
  document of a browser no two nodes have the same identity; nothing below depends on it.
\<close>

definition mutate :: "node \<Rightarrow> (node \<Rightarrow> node) \<Rightarrow> element list \<Rightarrow> element list" where
  "mutate e f d = map (map_dom (\<lambda>a. if nid a = nid e then f a else a)) d"

definition forEach :: "node list \<Rightarrow> (node \<Rightarrow> node) \<Rightarrow> element list \<Rightarrow> element list" where
  "forEach es f d = fold (\<lambda>e. mutate e f) es d"

text \<open>
  \<open>createElement\<close> makes a node of a new identity. \<open>wrap e w\<close> is
  \<open>e.parentNode.insertBefore(w, e); w.appendChild(e)\<close>: the new element \<open>w\<close> takes the
  place of \<open>e\<close> among its siblings and \<open>e\<close> becomes its only child.
\<close>

definition fresh :: "element list \<Rightarrow> nat" where
  "fresh d = Suc (foldr max (map nid (all_nodes d)) 0)"

fun wrap_in :: "node \<Rightarrow> node \<Rightarrow> element \<Rightarrow> element" where
  "wrap_in e w (Element a ch) =
     (if nid a = nid e then Element w [Element a ch]
      else Element a (map (wrap_in e w) ch))"

definition wrap :: "node \<Rightarrow> node \<Rightarrow> element list \<Rightarrow> element list" where
  "wrap e w d = map (wrap_in e w) d"

section \<open>The responsive manager\<close>

datatype device = Mobile | Tablet | Desktop

record breakpoints_config =
  mobile :: int
  tablet :: int
  desktop :: int

definition breakpoints :: breakpoints_config where
  "breakpoints = \<lparr>mobile = 768, tablet = 1024, desktop = 1200\<rparr>"

text \<open>
  The lines written to the console: the manager has started, the device found with the
  width, a change of device, and the first line of each layout policy, which says that it
  is being applied.
\<close>

datatype message = Started | Current device int | Changed device device | Applying device

text \<open>
  The manager's field \<open>currentDevice\<close>, \<open>window.innerWidth\<close>, the console, the classes of
  \<open>body\<close> and the elements below it.
\<close>

record responsive =
  currentDevice :: device
  innerWidth :: int
  console :: "message list"
  body_classList :: "string list"
  body :: "element list"

definition console_log :: "message \<Rightarrow> responsive \<Rightarrow> responsive" where
  "console_log m s = s\<lparr>console := console s @ [m]\<rparr>"

definition detectDevice :: "responsive \<Rightarrow> responsive" where
  "detectDevice s =
     (let width = innerWidth s;
          s1 = (if width < mobile breakpoints then s\<lparr>currentDevice := Mobile\<rparr>
                else if width < tablet breakpoints then s\<lparr>currentDevice := Tablet\<rparr>
                else s\<lparr>currentDevice := Desktop\<rparr>)
      in console_log (Current (currentDevice s1) width) s1)"

subsection \<open>The sidebar\<close>

definition setSidebarVisibility :: "responsive \<Rightarrow> bool \<Rightarrow> responsive" where
  "setSidebarVisibility s shouldOpen =
     (let sidebar = getElementById ''sidebar'' (body s);
          overlay = getElementById ''sidebarOverlay'' (body s)
      in case sidebar of
           None \<Rightarrow> s
         | Some sb \<Rightarrow>
             let d1 = mutate sb (\<lambda>a. a\<lparr>classList := classList_toggle ''open'' shouldOpen (classList a)\<rparr>) (body s);
                 d2 = mutate sb (\<lambda>a. a\<lparr>classList := classList_toggle ''show'' shouldOpen (classList a)\<rparr>) d1;
                 isMobile = (innerWidth s \<le> 1024);
                 d3 = (case overlay of
                         None \<Rightarrow> d2
                       | Some ov \<Rightarrow>
                           mutate ov (\<lambda>a. a\<lparr>classList :=
                             classList_toggle ''visible'' (shouldOpen \<and> isMobile) (classList a)\<rparr>) d2)
             in s\<lparr>body := d3,
                  body_classList :=
                    (if shouldOpen \<and> isMobile then classList_add ''sidebar-open'' (body_classList s)
                     else classList_remove ''sidebar-open'' (body_classList s))\<rparr>)"

text \<open>\<open>force\<close> is \<open>Some b\<close> for a boolean argument and \<open>None\<close> for anything else.\<close>

definition toggleSidebar :: "responsive \<Rightarrow> bool option \<Rightarrow> responsive" where
  "toggleSidebar s force =
     (case getElementById ''sidebar'' (body s) of
        None \<Rightarrow> s
      | Some sidebar \<Rightarrow>
          let shouldOpen = (case force of
                              Some b \<Rightarrow> b
                            | None \<Rightarrow> \<not> (''open'' \<in> set (classList sidebar)))
          in setSidebarVisibility s shouldOpen)"

definition hideSidebar :: "responsive \<Rightarrow> responsive" where
  "hideSidebar s = toggleSidebar s (Some False)"

definition showFullSidebar :: "responsive \<Rightarrow> responsive" where
  "showFullSidebar s =
     (case querySelector ''sidebar'' (body s) of
        None \<Rightarrow> s
      | Some sidebar \<Rightarrow>
          toggleSidebar
            (s\<lparr>body := mutate sidebar
                 (\<lambda>a. a\<lparr>classList := classList_remove ''compact'' (classList a)\<rparr>) (body s)\<rparr>)
            (Some True))"

subsection \<open>Cards, buttons and tables\<close>

definition optimizeCardsForMobile :: "responsive \<Rightarrow> responsive" where
  "optimizeCardsForMobile s =
     (let cards = querySelectorAll ''card'' (body s);
          d1 = forEach cards
                 (\<lambda>a. a\<lparr>style := (style a)\<lparr>marginBottom := ''1rem'', padding := ''1rem''\<rparr>\<rparr>) (body s);
          statCards = querySelectorAll ''stat-card'' d1;
          d2 = forEach statCards
                 (\<lambda>a. a\<lparr>style := (style a)\<lparr>marginBottom := ''1rem'', padding := ''1.5rem''\<rparr>\<rparr>) d1
      in s\<lparr>body := d2\<rparr>)"

definition optimizeCardsForTablet :: "responsive \<Rightarrow> responsive" where
  "optimizeCardsForTablet s =
     (let cards = querySelectorAll ''card'' (body s)
      in s\<lparr>body := forEach cards
           (\<lambda>a. a\<lparr>style := (style a)\<lparr>marginBottom := ''1.5rem'', padding := ''1.5rem''\<rparr>\<rparr>)
           (body s)\<rparr>)"

definition optimizeButtonsForMobile :: "responsive \<Rightarrow> responsive" where
  "optimizeButtonsForMobile s =
     (let buttons = querySelectorAll ''btn'' (body s)
      in s\<lparr>body := forEach buttons
           (\<lambda>a. a\<lparr>style := (style a)\<lparr>padding := ''0.75rem 1rem'', fontSize := ''1rem'',
                                       minHeight := ''44px''\<rparr>\<rparr>)
           (body s)\<rparr>)"

definition optimizeButtonsForTablet :: "responsive \<Rightarrow> responsive" where
  "optimizeButtonsForTablet s =
     (let buttons = querySelectorAll ''btn'' (body s)
      in s\<lparr>body := forEach buttons
           (\<lambda>a. a\<lparr>style := (style a)\<lparr>padding := ''0.625rem 1.25rem'',
                                       fontSize := ''0.875rem''\<rparr>\<rparr>)
           (body s)\<rparr>)"

text \<open>
  The wrapper that \<open>optimizeTablesForMobile\<close> creates for a table, and the body of its
  loop: what it does with one table.
\<close>

definition table_wrapper :: "nat \<Rightarrow> node" where
  "table_wrapper n =
     \<lparr>nid = n, tag = ''div'', el_id = '''', classList = [''table-wrapper''],
      style = \<lparr>marginBottom = '''', padding = '''', fontSize = '''', minHeight = '''',
               overflowX = ''auto'', webkitOverflowScrolling = ''touch''\<rparr>\<rparr>"

definition wrap_table :: "node \<Rightarrow> element list \<Rightarrow> element list" where
  "wrap_table table d =
     (let d1 = mutate table
                 (\<lambda>a. a\<lparr>classList := classList_add ''table-responsive'' (classList a)\<rparr>) d;
          wrapper = table_wrapper (fresh d1)
      in wrap table wrapper d1)"

definition optimizeTablesForMobile :: "responsive \<Rightarrow> responsive" where
  "optimizeTablesForMobile s =
     (let tables = querySelectorAll ''table'' (body s)
      in s\<lparr>body := fold wrap_table tables (body s)\<rparr>)"

definition restoreDefaultLayout :: "responsive \<Rightarrow> responsive" where
  "restoreDefaultLayout s =
     (let cards = querySelectorAll ''card'' (body s);
          d1 = forEach cards (\<lambda>a. a\<lparr>style := (style a)\<lparr>marginBottom := '''', padding := ''''\<rparr>\<rparr>)
                 (body s);
          buttons = querySelectorAll ''btn'' d1;
          d2 = forEach buttons
                 (\<lambda>a. a\<lparr>style := (style a)\<lparr>padding := '''', fontSize := '''', minHeight := ''''\<rparr>\<rparr>) d1
      in s\<lparr>body := d2,
           body_classList :=
             classList_remove ''tablet-device''
               (classList_remove ''mobile-device'' (body_classList s))\<rparr>)"

subsection \<open>The layout policies\<close>

definition optimizeForMobile :: "responsive \<Rightarrow> responsive" where
  "optimizeForMobile s =
     (let s1 = console_log (Applying Mobile) s;
          s2 = hideSidebar s1;
          s3 = optimizeCardsForMobile s2;
          s4 = optimizeButtonsForMobile s3;
          s5 = optimizeTablesForMobile s4
      in s5\<lparr>body_classList :=
           classList_remove ''desktop-device''
             (classList_remove ''tablet-device''
               (classList_add ''mobile-device'' (body_classList s5)))\<rparr>)"

definition optimizeForTablet :: "responsive \<Rightarrow> responsive" where
  "optimizeForTablet s =
     (let s1 = console_log (Applying Tablet) s;
          s2 = showFullSidebar s1;
          s3 = optimizeCardsForTablet s2;
          s4 = optimizeButtonsForTablet s3
      in s4\<lparr>body_classList :=
           classList_remove ''desktop-device''
             (classList_remove ''mobile-device''
               (classList_add ''tablet-device'' (body_classList s4)))\<rparr>)"

definition optimizeForDesktop :: "responsive \<Rightarrow> responsive" where
  "optimizeForDesktop s =
     (let s1 = console_log (Applying Desktop) s;
          s2 = showFullSidebar s1;
          s3 = restoreDefaultLayout s2
      in s3\<lparr>body_classList :=
           classList_remove ''tablet-device''
             (classList_remove ''mobile-device''
               (classList_add ''desktop-device'' (body_classList s3)))\<rparr>)"

definition optimizeForDevice :: "responsive \<Rightarrow> responsive" where
  "optimizeForDevice s =
     (case currentDevice s of
        Mobile \<Rightarrow> optimizeForMobile s
      | Tablet \<Rightarrow> optimizeForTablet s
      | Desktop \<Rightarrow> optimizeForDesktop s)"

definition handleResize :: "responsive \<Rightarrow> responsive" where
  "handleResize s =
     (let oldDevice = currentDevice s;
          s1 = detectDevice s
      in if oldDevice \<noteq> currentDevice s1
         then optimizeForDevice (console_log (Changed oldDevice (currentDevice s1)) s1)
         else s1)"

text \<open>\<open>init\<close>; \<open>bindEvents\<close> only registers listeners.\<close>

definition init :: "responsive \<Rightarrow> responsive" where
  "init s = console_log Started (optimizeForDevice (detectDevice s))"

text \<open>
  A resize of the window to width \<open>w\<close>, once the debounce timer has fired: \<open>innerWidth\<close> is
  \<open>w\<close> when \<open>handleResize\<close> runs. \<open>resizes\<close> is a sequence of them.
\<close>

definition resize :: "int \<Rightarrow> responsive \<Rightarrow> responsive" where
  "resize w s = handleResize (s\<lparr>innerWidth := w\<rparr>)"

definition resizes :: "int list \<Rightarrow> responsive \<Rightarrow> responsive" where
  "resizes ws s = fold resize ws s"

text \<open>How many times a layout policy has been applied: each application writes its line.\<close>

fun is_applying :: "message \<Rightarrow> bool" where
  "is_applying (Applying d) = True"
| "is_applying m = False"

definition policy_applications :: "responsive \<Rightarrow> nat" where
  "policy_applications s = length (filter is_applying (console s))"

text \<open>The class a width falls in, and whether the overlay is shown.\<close>

definition device_of :: "int \<Rightarrow> device" where
  "device_of w = currentDevice (detectDevice
     \<lparr>currentDevice = Desktop, innerWidth = w, console = [], body_classList = [], body = []\<rparr>)"

definition overlay_visible :: "responsive \<Rightarrow> bool" where
  "overlay_visible s =
     (case getElementById ''sidebarOverlay'' (body s) of
        None \<Rightarrow> False
      | Some overlay \<Rightarrow> ''visible'' \<in> set (classList overlay))"

text \<open>The document a reader of the page observes: the classes of \<open>body\<close> and what is below it.\<close>

definition document :: "responsive \<Rightarrow> string list \<times> element list" where
  "document s = (body_classList s, body s)"

subsection \<open>A page to run the manager on\<close>

text \<open>
  A page of width \<open>w\<close> before \<open>init\<close>: the sidebar, its overlay, a card that holds a table,
  and a button, none of them styled.
\<close>

definition no_style :: css where
  "no_style = \<lparr>marginBottom = '''', padding = '''', fontSize = '''', minHeight = '''',
               overflowX = '''', webkitOverflowScrolling = ''''\<rparr>"

definition sample_page :: "int \<Rightarrow> responsive" where
  "sample_page w =
     \<lparr>currentDevice = Desktop, innerWidth = w, console = [], body_classList = [],
      body =
        [Element \<lparr>nid = 1, tag = ''nav'', el_id = ''sidebar'', classList = [''sidebar''],
                  style = no_style\<rparr> [],
         Element \<lparr>nid = 2, tag = ''div'', el_id = ''sidebarOverlay'',
                  classList = [''sidebar-overlay''], style = no_style\<rparr> [],
         Element \<lparr>nid = 3, tag = ''div'', el_id = '''', classList = [''card''],
                  style = no_style\<rparr>
           [Element \<lparr>nid = 4, tag = ''table'', el_id = '''', classList = [''table''],
                     style = no_style\<rparr> []],
         Element \<lparr>nid = 5, tag = ''button'', el_id = '''', classList = [''btn''],
                  style = no_style\<rparr> []]\<rparr>"

definition page_without_table :: "int \<Rightarrow> responsive" where
  "page_without_table w =
     (sample_page w)\<lparr>body :=
        [Element \<lparr>nid = 1, tag = ''nav'', el_id = ''sidebar'', classList = [''sidebar''],
                  style = no_style\<rparr> [],
         Element \<lparr>nid = 2, tag = ''div'', el_id = ''sidebarOverlay'',
                  classList = [''sidebar-overlay''], style = no_style\<rparr> [],
         Element \<lparr>nid = 3, tag = ''div'', el_id = '''', classList = [''card'', ''stat-card''],
                  style = no_style\<rparr> [],
         Element \<lparr>nid = 5, tag = ''button'', el_id = '''', classList = [''btn''],
                  style = no_style\<rparr> []]\<rparr>"

section \<open>The effect of the layout code on one node\<close>

text \<open>
  The notions below serve the proofs. Every step of a layout policy but the wrapping of
  tables changes attributes of nodes and leaves the tree as it is, so its effect on the
  document is one function applied to every node. \<open>on N f\<close> applies \<open>f\<close> to the nodes whose
  identity is in \<open>N\<close>; \<open>refs\<close> and \<open>ref\<close> are the identities a query returned.
\<close>

definition on :: "nat set \<Rightarrow> (node \<Rightarrow> node) \<Rightarrow> node \<Rightarrow> node" where
  "on N f a = (if nid a \<in> N then f a else a)"

definition refs :: "node list \<Rightarrow> nat set" where
  "refs es = nid ` set es"

definition ref :: "node option \<Rightarrow> nat set" where
  "ref e = nid ` set_option e"

text \<open>
  The classes the layout code selects by, and the functions on nodes that change neither
  the identity, nor the identifier, nor the membership in one of these classes: a query
  finds the same nodes before and after such a function.
\<close>

definition selectors :: "string set" where
  "selectors = {''sidebar'', ''card'', ''stat-card'', ''btn'', ''table''}"

definition keeps :: "(node \<Rightarrow> node) \<Rightarrow> bool" where
  "keeps g \<longleftrightarrow>
     (\<forall>a. nid (g a) = nid a \<and> el_id (g a) = el_id a
          \<and> (\<forall>c\<in>selectors. (c \<in> set (classList (g a))) = (c \<in> set (classList a))))"

text \<open>
  What \<open>setSidebarVisibility\<close> does to a node and to the classes of \<open>body\<close>, given the
  identities \<open>SB\<close> of the sidebar and \<open>OV\<close> of the overlay (empty when the element is
  missing); and the same for \<open>showFullSidebar\<close>, where \<open>SF\<close> is the first element of class
  \<open>sidebar\<close>.
\<close>

definition sidebar_node :: "nat set \<Rightarrow> nat set \<Rightarrow> bool \<Rightarrow> bool \<Rightarrow> node \<Rightarrow> node" where
  "sidebar_node SB OV shouldOpen isMobile =
     (if SB = {} then id
      else on OV (\<lambda>a. a\<lparr>classList := classList_toggle ''visible'' (shouldOpen \<and> isMobile) (classList a)\<rparr>)
         \<circ> on SB (\<lambda>a. a\<lparr>classList := classList_toggle ''show'' shouldOpen (classList a)\<rparr>)
         \<circ> on SB (\<lambda>a. a\<lparr>classList := classList_toggle ''open'' shouldOpen (classList a)\<rparr>))"

definition sidebar_classes :: "nat set \<Rightarrow> bool \<Rightarrow> bool \<Rightarrow> string list \<Rightarrow> string list" where
  "sidebar_classes SB shouldOpen isMobile cs =
     (if SB = {} then cs
      else if shouldOpen \<and> isMobile then classList_add ''sidebar-open'' cs
      else classList_remove ''sidebar-open'' cs)"

definition full_sidebar_node :: "nat set \<Rightarrow> nat set \<Rightarrow> nat set \<Rightarrow> bool \<Rightarrow> node \<Rightarrow> node" where
  "full_sidebar_node SF SB OV isMobile =
     (if SF = {} then id
      else sidebar_node SB OV True isMobile
         \<circ> on SF (\<lambda>a. a\<lparr>classList := classList_remove ''compact'' (classList a)\<rparr>))"

definition full_sidebar_classes :: "nat set \<Rightarrow> nat set \<Rightarrow> bool \<Rightarrow> string list \<Rightarrow> string list" where
  "full_sidebar_classes SF SB isMobile cs =
     (if SF = {} then cs else sidebar_classes SB True isMobile cs)"

text \<open>An assignment to properties of the inline style.\<close>

definition set_style :: "(css \<Rightarrow> css) \<Rightarrow> node \<Rightarrow> node" where
  "set_style h a = a\<lparr>style := h (style a)\<rparr>"

text \<open>
  What each layout policy does to a node and to the classes of \<open>body\<close>, given the nodes
  its queries return; for the mobile policy, before it wraps the tables.
\<close>

definition tablet_node ::
  "nat set \<Rightarrow> nat set \<Rightarrow> nat set \<Rightarrow> nat set \<Rightarrow> nat set \<Rightarrow> bool \<Rightarrow> node \<Rightarrow> node" where
  "tablet_node SF SB OV CARD BTN isMobile =
     on BTN (set_style (\<lambda>st. st\<lparr>padding := ''0.625rem 1.25rem'', fontSize := ''0.875rem''\<rparr>))
     \<circ> on CARD (set_style (\<lambda>st. st\<lparr>marginBottom := ''1.5rem'', padding := ''1.5rem''\<rparr>))
     \<circ> full_sidebar_node SF SB OV isMobile"

definition tablet_classes :: "nat set \<Rightarrow> nat set \<Rightarrow> bool \<Rightarrow> string list \<Rightarrow> string list" where
  "tablet_classes SF SB isMobile cs =
     classList_remove ''desktop-device''
       (classList_remove ''mobile-device''
         (classList_add ''tablet-device'' (full_sidebar_classes SF SB isMobile cs)))"

definition desktop_node ::
  "nat set \<Rightarrow> nat set \<Rightarrow> nat set \<Rightarrow> nat set \<Rightarrow> nat set \<Rightarrow> bool \<Rightarrow> node \<Rightarrow> node" where
  "desktop_node SF SB OV CARD BTN isMobile =
     on BTN (set_style (\<lambda>st. st\<lparr>padding := '''', fontSize := '''', minHeight := ''''\<rparr>))
     \<circ> on CARD (set_style (\<lambda>st. st\<lparr>marginBottom := '''', padding := ''''\<rparr>))
     \<circ> full_sidebar_node SF SB OV isMobile"

definition desktop_classes :: "nat set \<Rightarrow> nat set \<Rightarrow> bool \<Rightarrow> string list \<Rightarrow> string list" where
  "desktop_classes SF SB isMobile cs =
     classList_remove ''tablet-device''
       (classList_remove ''mobile-device''
         (classList_add ''desktop-device''
           (classList_remove ''tablet-device''
             (classList_remove ''mobile-device'' (full_sidebar_classes SF SB isMobile cs)))))"

definition mobile_node ::
  "nat set \<Rightarrow> nat set \<Rightarrow> nat set \<Rightarrow> nat set \<Rightarrow> nat set \<Rightarrow> bool \<Rightarrow> node \<Rightarrow> node" where
  "mobile_node SB OV CARD STAT BTN isMobile =
     on BTN (set_style (\<lambda>st. st\<lparr>padding := ''0.75rem 1rem'', fontSize := ''1rem'', minHeight := ''44px''\<rparr>))
     \<circ> on STAT (set_style (\<lambda>st. st\<lparr>marginBottom := ''1rem'', padding := ''1.5rem''\<rparr>))
     \<circ> on CARD (set_style (\<lambda>st. st\<lparr>marginBottom := ''1rem'', padding := ''1rem''\<rparr>))
     \<circ> sidebar_node SB OV False isMobile"

definition mobile_classes :: "nat set \<Rightarrow> bool \<Rightarrow> string list \<Rightarrow> string list" where
  "mobile_classes SB isMobile cs =
     classList_remove ''desktop-device''
       (classList_remove ''tablet-device''
         (classList_add ''mobile-device'' (sidebar_classes SB False isMobile cs)))"

text \<open>
  How many wrappers \<open>wrap_in e w\<close> adds below an element: one for each outermost node of the
  identity of \<open>e\<close>. And whether a document has an element of class \<open>table\<close>.
\<close>

fun hits :: "node \<Rightarrow> element \<Rightarrow> nat" where
  "hits e (Element a ch) = (if nid a = nid e then 1 else sum_list (map (hits e) ch))"

definition has_table :: "element list \<Rightarrow> bool" where
  "has_table d \<longleftrightarrow> (\<exists>a\<in>set (all_nodes d). ''table'' \<in> set (classList a))"

section \<open>Facts about the theme managers\<close>

lemma themes_get_light:
  "themes_get ''light'' =
     Some (Own \<lparr>name = ''light mode'', icon = ''bi-sun-fill'', css_class = ''''\<rparr>)"
  by (simp add: themes_get_def themes_def)

lemma themes_get_dark:
  "themes_get ''dark'' =
     Some (Own \<lparr>name = ''dark mode'', icon = ''bi-moon-fill'', css_class = ''dark''\<rparr>)"
  by (simp add: themes_get_def themes_def)

lemma themes_get_None_iff:
  "themes_get t = None \<longleftrightarrow> t \<noteq> ''light'' \<and> t \<noteq> ''dark'' \<and> t \<notin> set Object_prototype"
  by (simp add: themes_get_def themes_def)

lemma themes_get_empty: "themes_get [] = None"
  by (simp add: themes_get_def themes_def Object_prototype_def)

lemma setItem_cases:
  "setItem s v =
     (if mode s = Working then Returned (s\<lparr>item := Some v\<rparr>)
      else Thrown (if mode s = Full then QuotaExceededError else SecurityError) s)"
  by (simp add: setItem_def split: storage_mode.splits)

lemma after_and_then:
  "after (and_then r f) = (if returned r then after (f (after r)) else after r)"
  by (cases r) simp_all

lemma returned_and_then: "returned (and_then r f) = (returned r \<and> returned (f (after r)))"
  by (cases r) simp_all

text \<open>Refreshing the toggle control touches nothing but the control.\<close>

lemma th_updateToggleButton_frame:
  "data_theme (after (th_updateToggleButton s theme)) = data_theme s"
  "mode (after (th_updateToggleButton s theme)) = mode s"
  "item (after (th_updateToggleButton s theme)) = item s"
  "events (after (th_updateToggleButton s theme)) = events s"
  by (auto simp: th_updateToggleButton_def Let_def split: option.splits)

lemma th_updateToggleButton_valid:
  "theme = ''light'' \<or> theme = ''dark'' \<Longrightarrow> returned (th_updateToggleButton s theme)"
  by (auto simp: th_updateToggleButton_def themes_get_light themes_get_dark Let_def
      split: option.splits)

lemma tt_updateUI_frame:
  "data_theme (after (tt_updateUI s)) = data_theme s"
  "mode (after (tt_updateUI s)) = mode s"
  "item (after (tt_updateUI s)) = item s"
  "events (after (tt_updateUI s)) = events s"
  "currentTheme (after (tt_updateUI s)) = currentTheme s"
  by (auto simp: tt_updateUI_def Let_def split: option.splits)

lemma tt_updateUI_valid:
  "currentTheme s = ''light'' \<or> currentTheme s = ''dark'' \<Longrightarrow> returned (tt_updateUI s)"
  by (auto simp: tt_updateUI_def themes_get_light themes_get_dark Let_def split: option.splits)

lemmas setTheme_simps = Let_def setItem_cases dispatchThemeChange_def after_and_then
  returned_and_then th_updateToggleButton_frame tt_updateUI_frame

text \<open>What \<open>setTheme\<close> leaves behind, for any argument and whether or not it throws.\<close>

lemma th_setTheme_data_theme:
  "data_theme (after (th_setTheme s t save)) =
     (if data_theme s = Some t then Some t
      else if t = ''dark'' then Some ''dark''
      else if truthy (data_theme s) then None
      else data_theme s)"
  by (simp add: th_setTheme_def setTheme_simps)

lemma th_setTheme_mode: "mode (after (th_setTheme s t save)) = mode s"
  by (simp add: th_setTheme_def setTheme_simps)

lemma th_setTheme_item:
  "item (after (th_setTheme s t save)) = item s
   \<or> item (after (th_setTheme s t save)) = Some t \<and> save"
  by (simp add: th_setTheme_def setTheme_simps)

lemma tt_setTheme_data_theme:
  "data_theme (after (tt_setTheme s t save)) =
     (if themes_get t = None then data_theme s
      else if t = ''dark'' then Some ''dark''
      else if currentTheme s = ''dark'' then None
      else data_theme s)"
  by (simp add: tt_setTheme_def setTheme_simps)

lemma tt_setTheme_currentTheme:
  "currentTheme (after (tt_setTheme s t save)) =
     (if themes_get t = None then currentTheme s else t)"
  by (simp add: tt_setTheme_def setTheme_simps)

lemma tt_setTheme_mode: "mode (after (tt_setTheme s t save)) = mode s"
  by (simp add: tt_setTheme_def setTheme_simps)

lemma tt_setTheme_item:
  "item (after (tt_setTheme s t save)) =
     (if themes_get t \<noteq> None \<and> save \<and> mode s = Working then Some t else item s)"
  by (auto simp: tt_setTheme_def setTheme_simps)

lemma tt_setTheme_returned:
  "t = ''light'' \<or> t = ''dark'' \<Longrightarrow>
   returned (tt_setTheme s t save) = (save \<longrightarrow> mode s = Working)"
  by (auto simp: tt_setTheme_def setTheme_simps themes_get_light themes_get_dark
      tt_updateUI_valid)

lemma th_setTheme_returned:
  "t = ''light'' \<or> t = ''dark'' \<Longrightarrow>
   returned (th_setTheme s t save) = (data_theme s = Some t \<or> (save \<longrightarrow> mode s = Working))"
  by (auto simp: th_setTheme_def setTheme_simps th_updateToggleButton_valid)

text \<open>The invariants are kept by every step, so they hold in every reachable state.\<close>

lemma tt_inv_setTheme: "tt_inv s \<Longrightarrow> tt_inv (after (tt_setTheme s t save))"
  by (auto simp: tt_inv_def tt_setTheme_data_theme tt_setTheme_currentTheme)

lemma tt_inv_updateUI: "tt_inv s \<Longrightarrow> tt_inv (after (tt_updateUI s))"
  by (simp add: tt_inv_def tt_updateUI_frame)

lemma tt_inv_step:
  assumes "tt_inv s"
  shows "tt_inv (after (tt_step s a))"
proof (cases a)
  case Init
  have "tt_inv (after (tt_loadTheme s))"
    using assms by (simp add: tt_loadTheme_def getItem_def tt_inv_setTheme)
  then show ?thesis
    using assms Init by (simp add: tt_init_def after_and_then tt_inv_updateUI)
next
  case (SetTheme t save)
  then show ?thesis using assms by (simp add: tt_inv_setTheme)
next
  case ToggleTheme
  then show ?thesis using assms by (simp add: tt_toggleTheme_def tt_inv_setTheme)
next
  case (MediaChange m)
  then show ?thesis
    using assms by (simp add: tt_mediaQuery_change_def getItem_def tt_inv_setTheme)
next
  case Reset
  then show ?thesis using assms by simp
qed

lemma tt_reachable_inv: "tt_reachable s \<Longrightarrow> tt_inv s"
proof (induction rule: tt_reachable.induct)
  case (tt_start m v b)
  then show ?case by (simp add: tt_inv_def tt_loaded_def)
next
  case (tt_next s a)
  then show ?case by (simp add: tt_inv_step)
qed

lemma th_inv_setTheme: "th_inv s \<Longrightarrow> th_inv (after (th_setTheme s t save))"
  by (auto simp: th_inv_def th_setTheme_data_theme)

lemma th_inv_step:
  assumes "th_inv s"
  shows "th_inv (after (th_step s a))"
proof (cases a)
  case Init
  have "th_inv (after (th_loadTheme s))"
    using assms by (auto simp: th_loadTheme_def getItem_def th_inv_setTheme)
  then show ?thesis
    using assms Init by (simp add: th_init_def after_and_then th_inv_def th_createThemeToggle_def)
next
  case (SetTheme t save)
  then show ?thesis using assms by (simp add: th_inv_setTheme)
next
  case ToggleTheme
  then show ?thesis using assms by (simp add: th_toggleTheme_def th_inv_setTheme Let_def)
next
  case (MediaChange m)
  then show ?thesis
    using assms by (simp add: th_mediaQuery_change_def getItem_def th_inv_setTheme)
next
  case Reset
  have "th_inv (after (removeItem s))"
    using assms by (simp add: removeItem_def th_inv_def)
  then show ?thesis
    using assms Reset by (simp add: th_reset_def after_and_then th_inv_setTheme)
qed

lemma th_reachable_inv: "th_reachable s \<Longrightarrow> th_inv s"
proof (induction rule: th_reachable.induct)
  case (th_start m v)
  then show ?case by (simp add: th_inv_def th_loaded_def)
next
  case (th_next s a)
  then show ?case by (simp add: th_inv_step)
qed

text \<open>A stored preference silences the media-query listener, and no step but a clearing one removes it.\<close>

lemma tt_mediaQuery_change_persisted:
  "truthy (item s) \<Longrightarrow> after (tt_mediaQuery_change s m) = s"
  by (simp add: tt_mediaQuery_change_def getItem_def)

lemma th_mediaQuery_change_persisted:
  "truthy (item s) \<Longrightarrow> after (th_mediaQuery_change s m) = s"
  by (simp add: th_mediaQuery_change_def getItem_def)

lemma tt_setTheme_keeps_item:
  "truthy (item s) \<Longrightarrow> truthy (item (after (tt_setTheme s t save)))"
  by (auto simp: tt_setTheme_item themes_get_empty)

lemma th_setTheme_keeps_item:
  "truthy (item s) \<Longrightarrow> \<not> (t = [] \<and> save) \<Longrightarrow> truthy (item (after (th_setTheme s t save)))"
  using th_setTheme_item [of s t save] by auto

lemma tt_step_keeps_item:
  assumes "truthy (item s)"
  shows "truthy (item (after (tt_step s a)))"
proof (cases a)
  case Init
  have "truthy (item (after (tt_loadTheme s)))"
    using assms by (simp add: tt_loadTheme_def getItem_def tt_setTheme_keeps_item)
  then show ?thesis
    using assms Init by (simp add: tt_init_def after_and_then tt_updateUI_frame)
next
  case (SetTheme t save)
  then show ?thesis using assms by (simp add: tt_setTheme_keeps_item)
next
  case ToggleTheme
  then show ?thesis using assms by (simp add: tt_toggleTheme_def tt_setTheme_keeps_item)
next
  case (MediaChange m)
  then show ?thesis using assms by (simp add: tt_mediaQuery_change_persisted)
next
  case Reset
  then show ?thesis using assms by simp
qed

text \<open>
  In theme.js a persisting \<open>setTheme('')\<close> stores the empty string when there is no toggle
  control; once \<open>init\<close> has created the control, it throws before its write. The control,
  once created, stays.
\<close>

lemma th_updateToggleButton_button:
  "toggleButton (after (th_updateToggleButton s t)) = None \<longleftrightarrow> toggleButton s = None"
  by (auto simp: th_updateToggleButton_def Let_def split: option.splits)

lemma th_updateToggleButton_empty:
  "toggleButton s \<noteq> None \<Longrightarrow> \<not> returned (th_updateToggleButton s [])"
  by (auto simp: th_updateToggleButton_def themes_get_empty split: option.splits)

lemma setItem_button: "toggleButton (after (setItem s t)) = toggleButton s"
  by (simp add: setItem_def split: storage_mode.splits)

lemma th_setTheme_button:
  "toggleButton (after (th_setTheme s t save)) = None \<longleftrightarrow> toggleButton s = None"
  by (simp add: th_setTheme_def Let_def after_and_then dispatchThemeChange_def setItem_button
      th_updateToggleButton_button)

lemma th_setTheme_empty_item:
  "toggleButton s \<noteq> None \<Longrightarrow> item (after (th_setTheme s [] save)) = item s"
  by (simp add: th_setTheme_def Let_def after_and_then th_updateToggleButton_empty
      th_updateToggleButton_frame)

lemma th_step_button:
  assumes "toggleButton s \<noteq> None"
  shows "toggleButton (after (th_step s a)) \<noteq> None"
proof (cases a)
  case Init
  have "toggleButton (after (th_loadTheme s)) \<noteq> None"
    using assms by (simp add: th_loadTheme_def getItem_def th_setTheme_button del: not_None_eq)
  then show ?thesis
    using Init by (simp add: th_init_def after_and_then th_createThemeToggle_def)
next
  case (SetTheme t save)
  then show ?thesis using assms by (simp add: th_setTheme_button del: not_None_eq)
next
  case ToggleTheme
  then show ?thesis using assms by (simp add: th_toggleTheme_def th_setTheme_button Let_def del: not_None_eq)
next
  case (MediaChange m)
  then show ?thesis
    using assms by (simp add: th_mediaQuery_change_def getItem_def th_setTheme_button del: not_None_eq)
next
  case Reset
  have "toggleButton (after (removeItem s)) \<noteq> None"
    using assms by (simp add: removeItem_def del: not_None_eq)
  then show ?thesis
    using assms Reset by (simp add: th_reset_def after_and_then th_setTheme_button del: not_None_eq)
qed

lemma th_step_keeps_item:
  assumes "truthy (item s)" "a \<noteq> Reset" "toggleButton s \<noteq> None \<or> a \<noteq> SetTheme [] True"
  shows "truthy (item (after (th_step s a)))"
proof (cases a)
  case Init
  have "truthy (item (after (th_loadTheme s)))"
    using assms(1) by (simp add: th_loadTheme_def getItem_def th_setTheme_keeps_item)
  then show ?thesis
    using assms Init by (simp add: th_init_def after_and_then th_createThemeToggle_def)
next
  case (SetTheme t save)
  show ?thesis
  proof (cases "t = [] \<and> save")
    case True
    then have "toggleButton s \<noteq> None" using assms(3) SetTheme by simp
    then show ?thesis using assms(1) SetTheme True by (simp add: th_setTheme_empty_item)
  next
    case False
    then show ?thesis using assms(1) SetTheme by (simp add: th_setTheme_keeps_item)
  qed
next
  case ToggleTheme
  then show ?thesis using assms by (simp add: th_toggleTheme_def th_setTheme_keeps_item Let_def)
next
  case (MediaChange m)
  then show ?thesis using assms by (simp add: th_mediaQuery_change_persisted)
next
  case Reset
  then show ?thesis using assms by simp
qed

lemma tt_os_ignored_persisted: "truthy (item s) \<Longrightarrow> tt_os_ignored s as"
proof (induction as arbitrary: s)
  case Nil
  then show ?case by simp
next
  case (Cons a as)
  have "tt_os_ignored (after (tt_step s a)) as"
    using Cons by (simp add: tt_step_keeps_item)
  then show ?case
    using Cons.prems by (cases a) (simp_all add: tt_mediaQuery_change_persisted)
qed

lemma th_os_ignored_persisted:
  "truthy (item s) \<Longrightarrow> Reset \<notin> set as \<Longrightarrow>
   toggleButton s \<noteq> None \<or> SetTheme [] True \<notin> set as \<Longrightarrow> th_os_ignored s as"
proof (induction as arbitrary: s)
  case Nil
  then show ?case by simp
next
  case (Cons a as)
  have a: "a \<noteq> Reset" "toggleButton s \<noteq> None \<or> a \<noteq> SetTheme [] True"
    using Cons.prems by auto
  have "truthy (item (after (th_step s a)))"
    using Cons.prems(1) a by (rule th_step_keeps_item)
  moreover have "Reset \<notin> set as" using Cons.prems by simp
  moreover have "toggleButton (after (th_step s a)) \<noteq> None \<or> SetTheme [] True \<notin> set as"
    using Cons.prems(3) th_step_button [of s a] by auto
  ultimately have "th_os_ignored (after (th_step s a)) as"
    by (rule Cons.IH)
  then show ?case
    using Cons.prems(1) by (cases a) (simp_all add: th_mediaQuery_change_persisted)
qed

lemma tt_run_changes_persisted:
  "truthy (item s) \<Longrightarrow> tt_run s (map MediaChange ms) = s"
  by (induction ms) (simp_all add: tt_mediaQuery_change_persisted)

lemma th_run_changes_persisted:
  "truthy (item s) \<Longrightarrow> th_run s (map MediaChange ms) = s"
  by (induction ms) (simp_all add: th_mediaQuery_change_persisted)

lemma tt_setTheme_persists:
  "t = ''light'' \<or> t = ''dark'' \<Longrightarrow> mode s = Working \<Longrightarrow>
   item (after (tt_setTheme s t True)) = Some t"
  by (auto simp: tt_setTheme_item themes_get_light themes_get_dark)

lemma th_setTheme_persists:
  "t = ''light'' \<or> t = ''dark'' \<Longrightarrow> mode s = Working \<Longrightarrow> data_theme s \<noteq> Some t \<Longrightarrow>
   item (after (th_setTheme s t True)) = Some t"
  by (auto simp: th_setTheme_def setTheme_simps th_updateToggleButton_valid)

text \<open>
  Two toggles bring the theme back: in every reachable state of theme.js, and in every
  reachable state of theme-toggle.js whose in-memory theme is \<open>light\<close> or \<open>dark\<close>.
\<close>

lemma toggleTheme_twice_valid:
  assumes "tt_reachable s" and "currentTheme s = ''light'' \<or> currentTheme s = ''dark''"
    and "th_reachable s'"
  shows "tt_getCurrentTheme (after (tt_toggleTheme (after (tt_toggleTheme s)))) = tt_getCurrentTheme s
    \<and> data_theme (after (tt_toggleTheme (after (tt_toggleTheme s)))) = data_theme s
    \<and> th_getCurrentTheme (after (th_toggleTheme (after (th_toggleTheme s')))) = th_getCurrentTheme s'
    \<and> data_theme (after (th_toggleTheme (after (th_toggleTheme s')))) = data_theme s'"
proof -
  have "tt_inv s" using assms(1) by (rule tt_reachable_inv)
  then have tt: "currentTheme (after (tt_toggleTheme (after (tt_toggleTheme s)))) = currentTheme s
    \<and> data_theme (after (tt_toggleTheme (after (tt_toggleTheme s)))) = data_theme s"
    using assms(2)
    by (auto simp: tt_inv_def tt_toggleTheme_def tt_setTheme_currentTheme tt_setTheme_data_theme
        themes_get_light themes_get_dark)
  have "th_inv s'" using assms(3) by (rule th_reachable_inv)
  then have th: "data_theme (after (th_toggleTheme (after (th_toggleTheme s')))) = data_theme s'"
    by (auto simp: th_inv_def th_toggleTheme_def th_setTheme_data_theme or_light_def Let_def)
  from tt th show ?thesis
    by (simp add: tt_getCurrentTheme_def th_getCurrentTheme_def)
qed

section \<open>Claims about the theme managers\<close>

text \<open>
  C8. For a valid theme \<open>t\<close> (\<open>light\<close> or \<open>dark\<close>) and any state of either manager, the
  current theme read after \<open>setTheme(t)\<close> is \<open>t\<close>. This holds for both values of the
  persist flag and also when the storage write throws, since the write comes after the
  theme has been applied; with a working storage, or without persisting, the call
  returns normally.
\<close>

theorem setTheme_then_getCurrentTheme:
  assumes "t = ''light'' \<or> t = ''dark''"
  shows "tt_getCurrentTheme (after (tt_setTheme s t save)) = t
    \<and> th_getCurrentTheme (after (th_setTheme s' t save)) = t
    \<and> (mode s = Working \<or> \<not> save \<longrightarrow> returned (tt_setTheme s t save))
    \<and> (mode s' = Working \<or> \<not> save \<longrightarrow> returned (th_setTheme s' t save))"
proof -
  have "themes_get t \<noteq> None"
    using assms by (auto simp: themes_get_light themes_get_dark)
  then have 1: "tt_getCurrentTheme (after (tt_setTheme s t save)) = t"
    by (auto simp: tt_getCurrentTheme_def tt_setTheme_currentTheme)
  have 2: "th_getCurrentTheme (after (th_setTheme s' t save)) = t"
    using assms by (auto simp: th_getCurrentTheme_def th_setTheme_data_theme or_light_def)
  from 1 2 show ?thesis
    using assms by (auto simp: tt_setTheme_returned th_setTheme_returned)
qed

theorem setTheme_then_getCurrentTheme_witness:
  "tt_getCurrentTheme (after (tt_setTheme (tt_loaded Working None None) ''dark'' True)) = ''dark''
   \<and> returned (tt_setTheme (tt_loaded Working None None) ''dark'' True)
   \<and> th_getCurrentTheme (after (th_setTheme (th_loaded Working None) ''dark'' True)) = ''dark''
   \<and> returned (th_setTheme (th_loaded Working None) ''dark'' True)
   \<and> th_getCurrentTheme (after (th_setTheme (th_loaded Full (Some ''dark'')) ''light'' True))
       = ''light''"
  using setTheme_then_getCurrentTheme
      [of "''dark''" "tt_loaded Working None None" True "th_loaded Working None"]
    setTheme_then_getCurrentTheme
      [of "''light''" "tt_loaded Working None None" True "th_loaded Full (Some ''dark'')"]
  by (simp add: tt_loaded_def th_loaded_def)

text \<open>
  C2, as stated, fails. In theme-toggle.js \<open>setTheme\<close> has no test for the active theme:
  \<open>setTheme('light')\<close> on a light page stores \<open>light\<close> and dispatches \<open>themeChanged\<close>. In
  theme.js the test compares the argument with the \<open>data-theme\<close> attribute, which is
  absent on a light page, so \<open>setTheme('light')\<close> does the same there; and theme.js does
  not validate its argument: \<open>setTheme('blue')\<close> on a dark page with the toggle control
  removes the attribute and then throws a TypeError.
\<close>

theorem setTheme_no_op_counterexample:
  "tt_setTheme (tt_loaded Working None None) ''light'' True =
     Returned (tt_loaded Working (Some ''light'') None\<lparr>events := [''light'']\<rparr>)
   \<and> th_setTheme (th_loaded Working None) ''light'' True =
     Returned (th_loaded Working (Some ''light'')\<lparr>events := [''light'']\<rparr>)
   \<and> th_setTheme (th_createThemeToggle
         (th_loaded Working (Some ''dark'')\<lparr>data_theme := Some ''dark''\<rparr>)) ''blue'' True =
     Thrown TypeError (th_createThemeToggle (th_loaded Working (Some ''dark'')))"
  by (simp add: tt_loaded_def th_loaded_def tt_setTheme_def th_setTheme_def themes_get_light
      Let_def setItem_def tt_updateUI_def th_updateToggleButton_def dispatchThemeChange_def
      th_createThemeToggle_def themes_get_def themes_def Object_prototype_def)

text \<open>
  C2, amended. In theme-toggle.js, \<open>setTheme(t)\<close> returns with the state unchanged (no
  event, no write, no exception) for every \<open>t\<close> that is neither \<open>light\<close> nor \<open>dark\<close> nor
  the name of a member of \<open>Object.prototype\<close>. In theme.js, \<open>setTheme(t)\<close> returns with the
  state unchanged whenever \<open>t\<close> is the value of the \<open>data-theme\<close> attribute, which is the
  case of \<open>dark\<close> on a dark page.
\<close>

theorem setTheme_no_op:
  "(t \<noteq> ''light'' \<and> t \<noteq> ''dark'' \<and> t \<notin> set Object_prototype
      \<longrightarrow> tt_setTheme s t save = Returned s)
   \<and> (data_theme s' = Some t \<longrightarrow> th_setTheme s' t save = Returned s')"
  by (simp add: tt_setTheme_def th_setTheme_def themes_get_None_iff)

theorem setTheme_no_op_witness:
  "tt_setTheme (tt_loaded Working None None) ''blue'' True = Returned (tt_loaded Working None None)
   \<and> th_setTheme (th_loaded Working None\<lparr>data_theme := Some ''dark''\<rparr>) ''dark'' True
       = Returned (th_loaded Working None\<lparr>data_theme := Some ''dark''\<rparr>)"
  using setTheme_no_op [of "''blue''" "tt_loaded Working None None" True
      "th_loaded Working None\<lparr>data_theme := Some ''dark''\<rparr>"]
    setTheme_no_op [of "''dark''" "tt_loaded Working None None" True
      "th_loaded Working None\<lparr>data_theme := Some ''dark''\<rparr>"]
  by (simp add: Object_prototype_def th_loaded_def)

text \<open>
  C7, as stated, fails: neither file catches anything. With the quota exhausted,
  \<open>setTheme('dark')\<close> throws out of \<open>setTheme\<close>; in theme-toggle.js the toggle control is
  not refreshed, and in neither file is \<open>themeChanged\<close> dispatched. With storage disabled,
  \<open>init\<close> of theme.js throws on its first read.
\<close>

theorem storage_failure_counterexample:
  "tt_setTheme (tt_loaded Full None (Some \<lparr>icon_className = Some ''bi bi-sun-fill'',
        span_textContent = Some ''light mode'', aria_label = None\<rparr>)) ''dark'' True =
     Thrown QuotaExceededError
       (tt_loaded Full None (Some \<lparr>icon_className = Some ''bi bi-sun-fill'',
          span_textContent = Some ''light mode'', aria_label = None\<rparr>)
        \<lparr>data_theme := Some ''dark'', currentTheme := ''dark''\<rparr>)
   \<and> th_setTheme (th_createThemeToggle (th_loaded Full None)) ''dark'' True =
     Thrown QuotaExceededError
       (th_loaded Full None
        \<lparr>data_theme := Some ''dark'',
         toggleButton := Some \<lparr>icon_className = Some ''bi-moon-fill'', span_textContent = None,
                                 aria_label = Some ''switch to dark mode''\<rparr>\<rparr>)
   \<and> th_init (th_loaded Denied None) = Thrown SecurityError (th_loaded Denied None)"
  by (simp add: tt_loaded_def th_loaded_def tt_setTheme_def th_setTheme_def Let_def
      setItem_def th_updateToggleButton_def th_init_def th_loadTheme_def getItem_def
      th_createThemeToggle_def themes_get_def themes_def)

text \<open>
  C7, amended. When the storage write throws in a persisting \<open>setTheme(t)\<close> for a valid
  \<open>t\<close> (in theme.js: one that differs from the \<open>data-theme\<close> attribute), the exception
  reaches the caller. The state it leaves is that of the successful call, except that
  nothing is stored and no \<open>themeChanged\<close> is dispatched, and that in theme-toggle.js the
  toggle control is not refreshed: the attribute and, in theme-toggle.js, the in-memory
  theme are as after success. When storage is disabled, \<open>loadTheme\<close> and the media-query
  listener throw on their read and change nothing.
\<close>

theorem storage_failure:
  assumes "t = ''light'' \<or> t = ''dark''"
  shows "(mode s \<noteq> Working \<longrightarrow>
           tt_setTheme s t True =
             Thrown (if mode s = Full then QuotaExceededError else SecurityError)
               ((after (tt_setTheme (s\<lparr>mode := Working\<rparr>) t True))
                  \<lparr>mode := mode s, item := item s, toggleButton := toggleButton s,
                   events := events s\<rparr>)
           \<and> events (after (tt_setTheme (s\<lparr>mode := Working\<rparr>) t True)) = events s @ [t])
       \<and> (mode s' \<noteq> Working \<and> data_theme s' \<noteq> Some t \<longrightarrow>
           th_setTheme s' t True =
             Thrown (if mode s' = Full then QuotaExceededError else SecurityError)
               ((after (th_setTheme (s'\<lparr>mode := Working\<rparr>) t True))
                  \<lparr>mode := mode s', item := item s', events := events s'\<rparr>)
           \<and> events (after (th_setTheme (s'\<lparr>mode := Working\<rparr>) t True)) = events s' @ [t])
       \<and> (mode s = Denied \<longrightarrow> tt_loadTheme s = Thrown SecurityError s
             \<and> tt_mediaQuery_change s m = Thrown SecurityError s)
       \<and> (mode s' = Denied \<longrightarrow> th_loadTheme s' = Thrown SecurityError s'
             \<and> th_mediaQuery_change s' m = Thrown SecurityError s')"
proof -
  have tt: "mode s \<noteq> Working \<Longrightarrow>
           tt_setTheme s t True =
             Thrown (if mode s = Full then QuotaExceededError else SecurityError)
               ((after (tt_setTheme (s\<lparr>mode := Working\<rparr>) t True))
                  \<lparr>mode := mode s, item := item s, toggleButton := toggleButton s,
                   events := events s\<rparr>)"
    using assms
    by (auto simp: tt_setTheme_def tt_updateUI_def Let_def setItem_cases themes_get_light
        themes_get_dark dispatchThemeChange_def split: option.splits)
  have tt_ev: "events (after (tt_setTheme (s\<lparr>mode := Working\<rparr>) t True)) = events s @ [t]"
    using assms
    by (auto simp: tt_setTheme_def setTheme_simps themes_get_light themes_get_dark
        tt_updateUI_valid)
  have th: "mode s' \<noteq> Working \<Longrightarrow> data_theme s' \<noteq> Some t \<Longrightarrow>
           th_setTheme s' t True =
             Thrown (if mode s' = Full then QuotaExceededError else SecurityError)
               ((after (th_setTheme (s'\<lparr>mode := Working\<rparr>) t True))
                  \<lparr>mode := mode s', item := item s', events := events s'\<rparr>)"
    using assms
    by (auto simp: th_setTheme_def th_updateToggleButton_def Let_def setItem_cases
        themes_get_light themes_get_dark dispatchThemeChange_def split: option.splits)
  have th_ev: "data_theme s' \<noteq> Some t \<Longrightarrow>
      events (after (th_setTheme (s'\<lparr>mode := Working\<rparr>) t True)) = events s' @ [t]"
    using assms
    by (auto simp: th_setTheme_def setTheme_simps th_updateToggleButton_valid)
  have rd: "mode s = Denied \<Longrightarrow> tt_loadTheme s = Thrown SecurityError s
             \<and> tt_mediaQuery_change s m = Thrown SecurityError s"
    by (simp add: tt_loadTheme_def tt_mediaQuery_change_def getItem_def)
  have rd': "mode s' = Denied \<Longrightarrow> th_loadTheme s' = Thrown SecurityError s'
             \<and> th_mediaQuery_change s' m = Thrown SecurityError s'"
    by (simp add: th_loadTheme_def th_mediaQuery_change_def getItem_def)
  from tt tt_ev th th_ev rd rd' show ?thesis by blast
qed

theorem storage_failure_witness:
  "\<not> returned (tt_setTheme (tt_loaded Denied None None) ''dark'' True)
   \<and> \<not> returned (th_setTheme (th_loaded Denied None) ''dark'' True)
   \<and> tt_loadTheme (tt_loaded Denied None None) = Thrown SecurityError (tt_loaded Denied None None)
   \<and> th_mediaQuery_change (th_loaded Denied None) True
       = Thrown SecurityError (th_loaded Denied None)"
  using storage_failure [where t = "''dark''" and s = "tt_loaded Denied None None"
      and s' = "th_loaded Denied None" and m = True]
  by (simp add: tt_loaded_def th_loaded_def)

text \<open>
  C9 fails in theme-toggle.js. Its \<open>setTheme\<close> tests its argument with \<open>this.themes[theme]\<close>,
  which is also truthy for the name of a member inherited from \<open>Object.prototype\<close>, so
  \<open>setTheme('constructor')\<close> makes \<open>constructor\<close> the current theme. From that state the first
  \<open>toggleTheme\<close> sets \<open>light\<close> and the second \<open>dark\<close>: \<open>getCurrentTheme()\<close> went from
  \<open>constructor\<close> to \<open>dark\<close> and the \<open>data-theme\<close> attribute from absent to \<open>dark\<close>. The same
  state is reached by \<open>init\<close> when the stored value is \<open>constructor\<close>.
\<close>

theorem toggleTheme_twice_after_constructor:
  "tt_getCurrentTheme (tt_run (tt_loaded Working None None) [Init, SetTheme ''constructor'' True])
     = ''constructor''
   \<and> data_theme (tt_run (tt_loaded Working None None) [Init, SetTheme ''constructor'' True]) = None
   \<and> tt_getCurrentTheme (after (tt_toggleTheme (after (tt_toggleTheme
        (tt_run (tt_loaded Working None None) [Init, SetTheme ''constructor'' True])))))
     = ''dark''
   \<and> data_theme (after (tt_toggleTheme (after (tt_toggleTheme
        (tt_run (tt_loaded Working None None) [Init, SetTheme ''constructor'' True])))))
     = Some ''dark''
   \<and> tt_getCurrentTheme (tt_run (tt_loaded Working (Some ''constructor'') None) [Init])
     = ''constructor''
   \<and> tt_getCurrentTheme (tt_run (tt_loaded Working (Some ''constructor'') None)
        [Init, ToggleTheme, ToggleTheme])
     = ''dark''"
  by code_simp

text \<open>
  C1, as stated, fails in theme.js, in two ways. Its \<open>setTheme\<close> does not validate its
  argument: after \<open>setTheme('light', true)\<close> has stored \<open>light\<close>, a \<open>setTheme('', true)\<close> made
  while there is no toggle control stores the empty string, which the listener reads as no
  preference, so after \<open>init\<close> a change of the operating system to dark turns the light page
  dark, with nothing cleared. And \<open>setTheme\<close> returns before its write when its argument is
  the value of the \<open>data-theme\<close> attribute: on a dark page with nothing stored,
  \<open>setTheme('dark', true)\<close> stores nothing, and a change of the operating system to light
  turns the page light.
\<close>

theorem os_change_followed_counterexample:
  "item (th_run (th_loaded Working None) [SetTheme ''light'' True]) = Some ''light''
   \<and> th_getCurrentTheme (th_run (th_loaded Working None)
        [SetTheme ''light'' True, SetTheme [] True, Init]) = ''light''
   \<and> th_getCurrentTheme (th_run (th_loaded Working None)
        [SetTheme ''light'' True, SetTheme [] True, Init, MediaChange True]) = ''dark''
   \<and> \<not> th_os_ignored (th_run (th_loaded Working None) [SetTheme ''light'' True])
        [SetTheme [] True, Init, MediaChange True]
   \<and> item (th_run (th_loaded Working None)
        [Init, SetTheme ''dark'' False, SetTheme ''dark'' True]) = None
   \<and> th_getCurrentTheme (th_run (th_loaded Working None)
        [Init, SetTheme ''dark'' False, SetTheme ''dark'' True]) = ''dark''
   \<and> th_getCurrentTheme (th_run (th_loaded Working None)
        [Init, SetTheme ''dark'' False, SetTheme ''dark'' True, MediaChange False]) = ''light''
   \<and> \<not> th_os_ignored (th_loaded Working None)
        [Init, SetTheme ''dark'' False, SetTheme ''dark'' True, MediaChange False]"
  by code_simp

text \<open>
  C1, amended. A preference is stored when the storage holds a non-empty value under the
  key \<open>theme\<close>. While one is stored, a change of the operating system's colour scheme
  leaves the whole state, and so the current theme, as it was; hence the listener changes
  the theme only when nothing is stored. In theme-toggle.js a stored preference stays
  stored through every step, so every later change is ignored. In theme.js it stays stored
  through every step other than \<open>reset\<close> and a persisting \<open>setTheme('')\<close> made while there is
  no toggle control (the control, once \<open>init\<close> has created it, stays), so in every execution
  without \<open>reset\<close> that starts with the control or has no persisting \<open>setTheme('')\<close> every
  change is ignored. A persisting \<open>setTheme\<close> of \<open>light\<close> or \<open>dark\<close> on a working storage stores
  the preference; in theme.js, when its argument is not the value of the \<open>data-theme\<close>
  attribute.
\<close>

theorem os_change_ignored_while_stored:
  "(truthy (item s) \<longrightarrow>
      after (tt_mediaQuery_change s m) = s \<and> truthy (item (after (tt_step s a)))
      \<and> tt_os_ignored s as)
   \<and> (truthy (item s') \<longrightarrow> after (th_mediaQuery_change s' m) = s')
   \<and> (truthy (item s') \<and> a \<noteq> Reset \<and> (toggleButton s' \<noteq> None \<or> a \<noteq> SetTheme [] True) \<longrightarrow>
        truthy (item (after (th_step s' a))))
   \<and> (toggleButton s' \<noteq> None \<longrightarrow> toggleButton (after (th_step s' a)) \<noteq> None)
   \<and> (truthy (item s') \<and> Reset \<notin> set as'
        \<and> (toggleButton s' \<noteq> None \<or> SetTheme [] True \<notin> set as') \<longrightarrow>
        th_os_ignored s' as')
   \<and> ((t = ''light'' \<or> t = ''dark'') \<and> mode s = Working \<longrightarrow>
        truthy (item (after (tt_setTheme s t True))))
   \<and> ((t = ''light'' \<or> t = ''dark'') \<and> mode s' = Working \<and> data_theme s' \<noteq> Some t \<longrightarrow>
        truthy (item (after (th_setTheme s' t True))))"
proof -
  have 1: "truthy (item (after (tt_setTheme s t True)))"
    if "t = ''light'' \<or> t = ''dark''" "mode s = Working"
    using that tt_setTheme_persists [of t s] by auto
  have 2: "truthy (item (after (th_setTheme s' t True)))"
    if "t = ''light'' \<or> t = ''dark''" "mode s' = Working" "data_theme s' \<noteq> Some t"
    using that th_setTheme_persists [of t s'] by auto
  have 3: "truthy (item (after (th_step s' a)))"
    if "truthy (item s')" "a \<noteq> Reset" "toggleButton s' \<noteq> None \<or> a \<noteq> SetTheme [] True"
    using that by (rule th_step_keeps_item)
  have 4: "th_os_ignored s' as'"
    if "truthy (item s')" "Reset \<notin> set as'"
      "toggleButton s' \<noteq> None \<or> SetTheme [] True \<notin> set as'"
    using that by (rule th_os_ignored_persisted)
  have 5: "toggleButton (after (th_step s' a)) \<noteq> None" if "toggleButton s' \<noteq> None"
    using that by (rule th_step_button)
  have 6: "after (tt_mediaQuery_change s m) = s \<and> truthy (item (after (tt_step s a)))
      \<and> tt_os_ignored s as" if "truthy (item s)"
    using that
    by (simp add: tt_mediaQuery_change_persisted tt_step_keeps_item tt_os_ignored_persisted)
  have 7: "after (th_mediaQuery_change s' m) = s'" if "truthy (item s')"
    using that by (simp add: th_mediaQuery_change_persisted)
  from 1 2 3 4 5 6 7 show ?thesis by blast
qed

theorem os_change_ignored_while_stored_witness:
  "truthy (item (after (tt_setTheme (tt_loaded Working None None) ''light'' True)))
   \<and> tt_os_ignored (after (tt_setTheme (tt_loaded Working None None) ''light'' True))
       [MediaChange True, ToggleTheme, MediaChange False]
   \<and> truthy (item (after (th_setTheme (th_loaded Working None) ''light'' True)))
   \<and> th_os_ignored (after (th_setTheme (th_loaded Working None) ''light'' True))
       [MediaChange True, ToggleTheme, MediaChange False]
   \<and> toggleButton (th_run (th_loaded Working (Some ''dark'')) [Init]) \<noteq> None
   \<and> truthy (item (after (th_step (th_run (th_loaded Working (Some ''dark'')) [Init])
       (SetTheme [] True))))
   \<and> toggleButton (after (th_step (th_run (th_loaded Working (Some ''dark'')) [Init])
       (SetTheme [] True))) \<noteq> None
   \<and> th_os_ignored (th_run (th_loaded Working (Some ''dark'')) [Init])
       [SetTheme [] True, MediaChange False]"
proof -
  have 1: "truthy (item (after (tt_setTheme (tt_loaded Working None None) ''light'' True)))"
    using os_change_ignored_while_stored
      [where t = "''light''" and s = "tt_loaded Working None None" and s' = "th_loaded Working None"]
    by (simp add: tt_loaded_def)
  have 2: "truthy (item (after (th_setTheme (th_loaded Working None) ''light'' True)))"
    using os_change_ignored_while_stored
      [where t = "''light''" and s = "tt_loaded Working None None" and s' = "th_loaded Working None"]
    by (simp add: th_loaded_def)
  have 3: "Reset \<notin> set [MediaChange True, ToggleTheme, MediaChange False]"
    "SetTheme [] True \<notin> set [MediaChange True, ToggleTheme, MediaChange False]"
    by simp_all
  have 4: "tt_os_ignored (after (tt_setTheme (tt_loaded Working None None) ''light'' True))
       [MediaChange True, ToggleTheme, MediaChange False]
     \<and> th_os_ignored (after (th_setTheme (th_loaded Working None) ''light'' True))
       [MediaChange True, ToggleTheme, MediaChange False]"
    using 1 2 3 os_change_ignored_while_stored
      [where s = "after (tt_setTheme (tt_loaded Working None None) ''light'' True)"
         and s' = "after (th_setTheme (th_loaded Working None) ''light'' True)"
         and as = "[MediaChange True, ToggleTheme, MediaChange False]"
         and as' = "[MediaChange True, ToggleTheme, MediaChange False]"]
    by blast
  have 5: "toggleButton (th_run (th_loaded Working (Some ''dark'')) [Init]) \<noteq> None"
    "truthy (item (th_run (th_loaded Working (Some ''dark'')) [Init]))"
    by code_simp+
  have 6: "Reset \<notin> set [SetTheme [] True, MediaChange False]"
    "SetTheme [] True \<noteq> Reset"
    by simp_all
  have 7: "truthy (item (after (th_step (th_run (th_loaded Working (Some ''dark'')) [Init])
       (SetTheme [] True))))
     \<and> toggleButton (after (th_step (th_run (th_loaded Working (Some ''dark'')) [Init])
       (SetTheme [] True))) \<noteq> None
     \<and> th_os_ignored (th_run (th_loaded Working (Some ''dark'')) [Init])
       [SetTheme [] True, MediaChange False]"
    using 5 6 os_change_ignored_while_stored
      [where s' = "th_run (th_loaded Working (Some ''dark'')) [Init]"
         and a = "SetTheme [] True"
         and as' = "[SetTheme [] True, MediaChange False]"]
    by blast
  from 1 2 4 5 7 show ?thesis by blast
qed

text \<open>
  C10, as stated, fails in two ways. In theme.js, \<open>setTheme\<close> returns before its write when
  its argument is the value of the \<open>data-theme\<close> attribute: on a dark page with nothing
  stored (reached by \<open>setTheme('dark', false)\<close>), a change to dark stores nothing, and the
  next change, to light, changes the theme. In both files a write that throws stores
  nothing, so with the quota exhausted every change is followed.
\<close>

theorem later_os_changes_counterexample:
  "item (th_run (th_loaded Working None) [Init, SetTheme ''dark'' False]) = None
   \<and> th_getCurrentTheme (th_run (th_loaded Working None)
       [Init, SetTheme ''dark'' False, MediaChange True]) = ''dark''
   \<and> th_getCurrentTheme (th_run (th_loaded Working None)
       [Init, SetTheme ''dark'' False, MediaChange True, MediaChange False]) = ''light''
   \<and> tt_getCurrentTheme (tt_run (tt_loaded Full None None) [MediaChange True]) = ''dark''
   \<and> tt_getCurrentTheme (tt_run (tt_loaded Full None None)
       [MediaChange True, MediaChange False]) = ''light''"
  by (simp add: th_loaded_def tt_loaded_def th_mediaQuery_change_def tt_mediaQuery_change_def
      getItem_def th_setTheme_def tt_setTheme_def Let_def setItem_def th_updateToggleButton_def
      tt_updateUI_def th_init_def th_loadTheme_def th_createThemeToggle_def dispatchThemeChange_def th_getCurrentTheme_def tt_getCurrentTheme_def
      or_light_def themes_get_light themes_get_dark)

text \<open>
  C10, amended. Let nothing be stored and the storage work, and in theme.js let the theme
  of the first change differ from the \<open>data-theme\<close> attribute. Then the first change of the
  operating system's colour scheme sets the current theme to the system's and stores it,
  and every later change, with no step in between, leaves the state as it is.
\<close>

theorem later_os_changes_ignored:
  "(\<not> truthy (item s) \<and> mode s = Working \<longrightarrow>
      tt_getCurrentTheme (after (tt_mediaQuery_change s m)) = (if m then ''dark'' else ''light'')
      \<and> item (after (tt_mediaQuery_change s m)) = Some (if m then ''dark'' else ''light'')
      \<and> tt_run (after (tt_mediaQuery_change s m)) (map MediaChange ms)
          = after (tt_mediaQuery_change s m))
   \<and> (\<not> truthy (item s') \<and> mode s' = Working
        \<and> data_theme s' \<noteq> Some (if m then ''dark'' else ''light'') \<longrightarrow>
      th_getCurrentTheme (after (th_mediaQuery_change s' m)) = (if m then ''dark'' else ''light'')
      \<and> item (after (th_mediaQuery_change s' m)) = Some (if m then ''dark'' else ''light'')
      \<and> th_run (after (th_mediaQuery_change s' m)) (map MediaChange ms)
          = after (th_mediaQuery_change s' m))"
proof -
  have tt: "tt_getCurrentTheme (after (tt_mediaQuery_change s m)) = (if m then ''dark'' else ''light'')
      \<and> item (after (tt_mediaQuery_change s m)) = Some (if m then ''dark'' else ''light'')"
    if "\<not> truthy (item s)" "mode s = Working"
    using that
    by (simp add: tt_mediaQuery_change_def getItem_def tt_getCurrentTheme_def
        tt_setTheme_currentTheme tt_setTheme_item themes_get_light themes_get_dark)
  have th: "th_getCurrentTheme (after (th_mediaQuery_change s' m)) = (if m then ''dark'' else ''light'')
      \<and> item (after (th_mediaQuery_change s' m)) = Some (if m then ''dark'' else ''light'')"
    if "\<not> truthy (item s')" "mode s' = Working"
       "data_theme s' \<noteq> Some (if m then ''dark'' else ''light'')"
    using that
    by (auto simp: th_mediaQuery_change_def getItem_def th_getCurrentTheme_def
        th_setTheme_def setTheme_simps th_updateToggleButton_valid or_light_def)
  show ?thesis
  proof (intro conjI impI)
    assume a: "\<not> truthy (item s) \<and> mode s = Working"
    then show "tt_getCurrentTheme (after (tt_mediaQuery_change s m)) = (if m then ''dark'' else ''light'')"
      and i: "item (after (tt_mediaQuery_change s m)) = Some (if m then ''dark'' else ''light'')"
      using tt by simp_all
    have "truthy (item (after (tt_mediaQuery_change s m)))"
      using i by simp
    then show "tt_run (after (tt_mediaQuery_change s m)) (map MediaChange ms)
          = after (tt_mediaQuery_change s m)"
      by (rule tt_run_changes_persisted)
  next
    assume a: "\<not> truthy (item s') \<and> mode s' = Working
        \<and> data_theme s' \<noteq> Some (if m then ''dark'' else ''light'')"
    then show "th_getCurrentTheme (after (th_mediaQuery_change s' m)) = (if m then ''dark'' else ''light'')"
      and i: "item (after (th_mediaQuery_change s' m)) = Some (if m then ''dark'' else ''light'')"
      using th by simp_all
    have "truthy (item (after (th_mediaQuery_change s' m)))"
      using i by simp
    then show "th_run (after (th_mediaQuery_change s' m)) (map MediaChange ms)
          = after (th_mediaQuery_change s' m)"
      by (rule th_run_changes_persisted)
  qed
qed

theorem later_os_changes_ignored_witness:
  "tt_run (after (tt_mediaQuery_change (tt_loaded Working None None) True))
       (map MediaChange [False, True]) = after (tt_mediaQuery_change (tt_loaded Working None None) True)
   \<and> th_run (after (th_mediaQuery_change (th_loaded Working None) True))
       (map MediaChange [False, True]) = after (th_mediaQuery_change (th_loaded Working None) True)"
  using later_os_changes_ignored [where s = "tt_loaded Working None None" and m = True
      and s' = "th_loaded Working None" and ms = "[False, True]"]
  by (simp add: tt_loaded_def th_loaded_def)

section \<open>Facts about the responsive manager\<close>

text \<open>What the layout code leaves alone: the device, the width, and the console but for its own lines.\<close>

lemma device_of_eq:
  "device_of w = (if w < 768 then Mobile else if w < 1024 then Tablet else Desktop)"
  by (simp add: device_of_def detectDevice_def breakpoints_def console_log_def Let_def)

lemma detectDevice_device: "currentDevice (detectDevice s) = device_of (innerWidth s)"
  by (simp add: device_of_def detectDevice_def breakpoints_def console_log_def Let_def)

lemma detectDevice_frame:
  "innerWidth (detectDevice s) = innerWidth s"
  "console (detectDevice s) = console s @ [Current (device_of (innerWidth s)) (innerWidth s)]"
  by (simp_all add: device_of_eq detectDevice_def breakpoints_def console_log_def Let_def)

lemma setSidebarVisibility_frame:
  "currentDevice (setSidebarVisibility s b) = currentDevice s"
  "innerWidth (setSidebarVisibility s b) = innerWidth s"
  "console (setSidebarVisibility s b) = console s"
  by (simp_all add: setSidebarVisibility_def Let_def split: option.splits)

lemma toggleSidebar_frame:
  "currentDevice (toggleSidebar s f) = currentDevice s"
  "innerWidth (toggleSidebar s f) = innerWidth s"
  "console (toggleSidebar s f) = console s"
  by (simp_all add: toggleSidebar_def setSidebarVisibility_frame Let_def split: option.splits)

lemma showFullSidebar_frame:
  "currentDevice (showFullSidebar s) = currentDevice s"
  "innerWidth (showFullSidebar s) = innerWidth s"
  "console (showFullSidebar s) = console s"
  by (simp_all add: showFullSidebar_def toggleSidebar_frame split: option.splits)

lemma optimizeForMobile_frame:
  "currentDevice (optimizeForMobile s) = currentDevice s"
  "innerWidth (optimizeForMobile s) = innerWidth s"
  "console (optimizeForMobile s) = console s @ [Applying Mobile]"
  by (simp_all add: optimizeForMobile_def hideSidebar_def toggleSidebar_frame
      optimizeCardsForMobile_def optimizeButtonsForMobile_def optimizeTablesForMobile_def
      console_log_def Let_def)

lemma optimizeForTablet_frame:
  "currentDevice (optimizeForTablet s) = currentDevice s"
  "innerWidth (optimizeForTablet s) = innerWidth s"
  "console (optimizeForTablet s) = console s @ [Applying Tablet]"
  by (simp_all add: optimizeForTablet_def showFullSidebar_frame
      optimizeCardsForTablet_def optimizeButtonsForTablet_def console_log_def Let_def)

lemma optimizeForDesktop_frame:
  "currentDevice (optimizeForDesktop s) = currentDevice s"
  "innerWidth (optimizeForDesktop s) = innerWidth s"
  "console (optimizeForDesktop s) = console s @ [Applying Desktop]"
  by (simp_all add: optimizeForDesktop_def showFullSidebar_frame
      restoreDefaultLayout_def console_log_def Let_def)

lemma optimizeForDevice_frame:
  "currentDevice (optimizeForDevice s) = currentDevice s"
  "innerWidth (optimizeForDevice s) = innerWidth s"
  "console (optimizeForDevice s) = console s @ [Applying (currentDevice s)]"
  by (simp_all add: optimizeForDevice_def optimizeForMobile_frame optimizeForTablet_frame
      optimizeForDesktop_frame split: device.splits)

lemma handleResize_frame:
  "currentDevice (handleResize s) = device_of (innerWidth s)"
  "innerWidth (handleResize s) = innerWidth s"
  "console (handleResize s) =
     console s @ [Current (device_of (innerWidth s)) (innerWidth s)]
       @ (if device_of (innerWidth s) \<noteq> currentDevice s
          then [Changed (currentDevice s) (device_of (innerWidth s)),
                Applying (device_of (innerWidth s))]
          else [])"
  by (simp_all add: handleResize_def Let_def optimizeForDevice_frame detectDevice_frame
      detectDevice_device console_log_def)

lemma handleResize_applications:
  "policy_applications (handleResize s) =
     policy_applications s + (if device_of (innerWidth s) \<noteq> currentDevice s then 1 else 0)"
  by (simp add: policy_applications_def handleResize_frame)

lemma resize_frame:
  "currentDevice (resize w s) = device_of w"
  "policy_applications (resize w s) =
     policy_applications s + (if device_of w \<noteq> currentDevice s then 1 else 0)"
proof -
  have "policy_applications (s\<lparr>innerWidth := w\<rparr>) = policy_applications s"
    by (simp add: policy_applications_def)
  then show "policy_applications (resize w s) =
     policy_applications s + (if device_of w \<noteq> currentDevice s then 1 else 0)"
    by (simp add: resize_def handleResize_applications)
qed (simp add: resize_def handleResize_frame)

lemma resizes_same_band:
  "\<forall>w\<in>set ws. device_of w = d \<Longrightarrow>
   policy_applications (resizes ws s) =
     policy_applications s + (if ws \<noteq> [] \<and> currentDevice s \<noteq> d then 1 else 0)"
proof (induction ws arbitrary: s)
  case Nil
  then show ?case by (simp add: resizes_def)
next
  case (Cons w ws)
  have "policy_applications (resizes ws (resize w s)) =
     policy_applications (resize w s)
       + (if ws \<noteq> [] \<and> currentDevice (resize w s) \<noteq> d then 1 else 0)"
    using Cons by simp
  moreover have "device_of w = d" using Cons.prems by simp
  ultimately show ?case
    by (auto simp: resizes_def resize_frame)
qed

lemma init_frame:
  "currentDevice (init s) = device_of (innerWidth s)"
  "policy_applications (init s) = policy_applications s + 1"
  by (simp_all add: init_def console_log_def optimizeForDevice_frame detectDevice_frame
      detectDevice_device policy_applications_def)

lemma mutate_on: "mutate e f d = map (map_dom (on {nid e} f)) d"
proof -
  have "(\<lambda>a. if nid a = nid e then f a else a) = on {nid e} f"
    by (rule ext) (simp add: on_def)
  then show ?thesis by (simp add: mutate_def)
qed

lemma map_dom_fuse: "map (map_dom f) (map (map_dom g) d) = map (map_dom (f \<circ> g)) d"
  by (simp add: dom.map_comp)

lemma map_dom_o: "map_dom f \<circ> map_dom g = map_dom (f \<circ> g)"
  by (rule ext) (simp add: dom.map_comp)

lemma forEach_on:
  assumes "\<And>a. nid (f a) = nid a" "\<And>a. f (f a) = f a"
  shows "forEach es f d = map (map_dom (on (refs es) f)) d"
proof -
  have "fold (\<lambda>e. mutate e f) es d = map (map_dom (on (refs es) f)) d" for d
  proof (induction es arbitrary: d)
    case Nil
    have "on {} f = id" by (rule ext) (simp add: on_def)
    then show ?case by (simp add: refs_def dom.map_ident)
  next
    case (Cons e es)
    have *: "on (refs es) f \<circ> on {nid e} f = on (refs (e # es)) f"
      by (rule ext) (auto simp: on_def refs_def assms)
    have "fold (\<lambda>e. mutate e f) (e # es) d = fold (\<lambda>e. mutate e f) es (mutate e f d)"
      by simp
    also have "\<dots> = map (map_dom (on (refs es) f)) (mutate e f d)"
      by (rule Cons.IH)
    also have "\<dots> = map (map_dom (on (refs es) f \<circ> on {nid e} f)) d"
      by (simp only: mutate_on map_dom_fuse)
    finally show ?case
      by (simp only: *)
  qed
  then show ?thesis by (simp add: forEach_def)
qed

lemma nodes_map_dom: "nodes (map_dom g t) = map g (nodes t)"
  by (induction t) (simp add: map_concat comp_def cong: map_cong)

lemma all_nodes_map: "all_nodes (map (map_dom g) d) = map g (all_nodes d)"
  by (simp add: all_nodes_def map_concat nodes_map_dom comp_def)

lemma querySelectorAll_map:
  assumes "keeps g" "c \<in> selectors"
  shows "querySelectorAll c (map (map_dom g) d) = map g (querySelectorAll c d)"
proof -
  have "(\<lambda>a. c \<in> set (classList a)) \<circ> g = (\<lambda>a. c \<in> set (classList a))"
    using assms by (auto simp: keeps_def fun_eq_iff)
  then show ?thesis
    by (simp add: querySelectorAll_def all_nodes_map filter_map)
qed

lemma refs_map: "keeps g \<Longrightarrow> refs (map g es) = refs es"
  by (auto simp: refs_def keeps_def image_iff)

lemma refs_querySelectorAll:
  "keeps g \<Longrightarrow> c \<in> selectors \<Longrightarrow>
   refs (querySelectorAll c (map (map_dom g) d)) = refs (querySelectorAll c d)"
  by (simp add: querySelectorAll_map refs_map)

lemma querySelector_map:
  "keeps g \<Longrightarrow> c \<in> selectors \<Longrightarrow>
   querySelector c (map (map_dom g) d) = map_option g (querySelector c d)"
  by (simp add: querySelector_def querySelectorAll_map split: list.splits)

lemma getElementById_map:
  assumes "keeps g"
  shows "getElementById i (map (map_dom g) d) = map_option g (getElementById i d)"
proof -
  have "(\<lambda>a. el_id a = i) \<circ> g = (\<lambda>a. el_id a = i)"
    using assms by (auto simp: keeps_def fun_eq_iff)
  then show ?thesis
    by (simp add: getElementById_def all_nodes_map filter_map split: list.splits)
qed

lemma ref_map_option: "keeps g \<Longrightarrow> ref (map_option g e) = ref e"
  by (cases e) (simp_all add: ref_def keeps_def)

lemma keeps_on: "keeps f \<Longrightarrow> keeps (on N f)"
  by (simp add: keeps_def on_def)

lemma keeps_comp: "keeps f \<Longrightarrow> keeps g \<Longrightarrow> keeps (f \<circ> g)"
  by (simp add: keeps_def)

lemma keeps_id: "keeps id"
  by (simp add: keeps_def)

lemma keeps_style: "keeps (\<lambda>a. a\<lparr>style := h (style a)\<rparr>)"
  by (simp add: keeps_def)

lemma keeps_toggle:
  "c \<notin> selectors \<Longrightarrow> keeps (\<lambda>a. a\<lparr>classList := classList_toggle c b (classList a)\<rparr>)"
  by (auto simp: keeps_def classList_toggle_def classList_add_def classList_remove_def)

lemma keeps_remove:
  "c \<notin> selectors \<Longrightarrow> keeps (\<lambda>a. a\<lparr>classList := classList_remove c (classList a)\<rparr>)"
  by (auto simp: keeps_def classList_remove_def)

lemma keeps_add:
  "c \<notin> selectors \<Longrightarrow> keeps (\<lambda>a. a\<lparr>classList := classList_add c (classList a)\<rparr>)"
  by (auto simp: keeps_def classList_add_def)

lemma ref_Some: "ref (Some e) = {nid e}" and ref_None: "ref None = {}"
  by (simp_all add: ref_def)

lemma on_empty: "on {} f = id"
  by (rule ext) (simp add: on_def)

lemma map_dom_id: "map (map_dom id) d = d"
  by (simp add: dom.map_id0)

lemma setSidebarVisibility_nf:
  "setSidebarVisibility s b =
     s\<lparr>body := map (map_dom (sidebar_node (ref (getElementById ''sidebar'' (body s)))
                  (ref (getElementById ''sidebarOverlay'' (body s))) b (innerWidth s \<le> 1024))) (body s),
       body_classList := sidebar_classes (ref (getElementById ''sidebar'' (body s))) b
                  (innerWidth s \<le> 1024) (body_classList s)\<rparr>"
  by (simp add: setSidebarVisibility_def Let_def sidebar_node_def sidebar_classes_def
      ref_Some ref_None mutate_on map_dom_o on_empty map_dom_id comp_assoc
      split: option.splits)

lemma toggleSidebar_Some: "toggleSidebar s (Some b) = setSidebarVisibility s b"
  by (simp add: toggleSidebar_def setSidebarVisibility_def Let_def split: option.splits)

lemma keeps_sidebar_node: "keeps (sidebar_node SB OV b m)"
  by (simp add: sidebar_node_def keeps_id keeps_comp keeps_on keeps_toggle selectors_def)

lemma keeps_full_sidebar_node: "keeps (full_sidebar_node SF SB OV m)"
  by (simp add: full_sidebar_node_def keeps_id keeps_comp keeps_on keeps_remove
      keeps_sidebar_node selectors_def)

lemma ref_getElementById:
  "keeps g \<Longrightarrow> ref (getElementById i (map (map_dom g) d)) = ref (getElementById i d)"
  by (simp add: getElementById_map ref_map_option)

lemma ref_querySelector:
  "keeps g \<Longrightarrow> c \<in> selectors \<Longrightarrow>
   ref (querySelector c (map (map_dom g) d)) = ref (querySelector c d)"
  by (simp add: querySelector_map ref_map_option)

lemma showFullSidebar_nf:
  "showFullSidebar s =
     s\<lparr>body := map (map_dom (full_sidebar_node (ref (querySelector ''sidebar'' (body s)))
                  (ref (getElementById ''sidebar'' (body s)))
                  (ref (getElementById ''sidebarOverlay'' (body s))) (innerWidth s \<le> 1024))) (body s),
       body_classList := full_sidebar_classes (ref (querySelector ''sidebar'' (body s)))
                  (ref (getElementById ''sidebar'' (body s))) (innerWidth s \<le> 1024)
                  (body_classList s)\<rparr>"
proof (cases "querySelector ''sidebar'' (body s)")
  case None
  then show ?thesis
    by (simp add: showFullSidebar_def full_sidebar_node_def full_sidebar_classes_def ref_None
        map_dom_id)
next
  case (Some e)
  have k: "keeps (on {nid e} (\<lambda>a. a\<lparr>classList := classList_remove ''compact'' (classList a)\<rparr>))"
    by (simp add: keeps_on keeps_remove selectors_def)
  show ?thesis
    using Some
    by (simp add: showFullSidebar_def toggleSidebar_Some setSidebarVisibility_nf mutate_on
        ref_getElementById [OF k] map_dom_o full_sidebar_node_def full_sidebar_classes_def
        ref_Some)
qed

lemma set_style_fold:
  "(\<lambda>a. a\<lparr>style := (style a)\<lparr>marginBottom := x, padding := y\<rparr>\<rparr>)
     = set_style (\<lambda>st. st\<lparr>marginBottom := x, padding := y\<rparr>)"
  "(\<lambda>a. a\<lparr>style := (style a)\<lparr>padding := y, fontSize := z\<rparr>\<rparr>)
     = set_style (\<lambda>st. st\<lparr>padding := y, fontSize := z\<rparr>)"
  "(\<lambda>a. a\<lparr>style := (style a)\<lparr>padding := y, fontSize := z, minHeight := u\<rparr>\<rparr>)
     = set_style (\<lambda>st. st\<lparr>padding := y, fontSize := z, minHeight := u\<rparr>)"
  by (simp_all add: set_style_def fun_eq_iff)

lemma forEach_style:
  assumes "\<And>x. h (h x) = h x"
  shows "forEach es (set_style h) d = map (map_dom (on (refs es) (set_style h))) d"
  by (rule forEach_on) (simp_all add: assms set_style_def)

lemma keeps_set_style: "keeps (set_style h)"
  by (simp add: keeps_def set_style_def)

lemmas keeps_rules = keeps_id keeps_comp keeps_on keeps_set_style keeps_toggle keeps_remove
  keeps_add keeps_sidebar_node keeps_full_sidebar_node

lemma selectors_simps:
  "''sidebar'' \<in> selectors" "''card'' \<in> selectors" "''stat-card'' \<in> selectors"
  "''btn'' \<in> selectors" "''table'' \<in> selectors"
  by (simp_all add: selectors_def)

lemma optimizeForTablet_nf:
  "optimizeForTablet s =
     s\<lparr>console := console s @ [Applying Tablet],
       body := map (map_dom (tablet_node (ref (querySelector ''sidebar'' (body s)))
                  (ref (getElementById ''sidebar'' (body s)))
                  (ref (getElementById ''sidebarOverlay'' (body s)))
                  (refs (querySelectorAll ''card'' (body s)))
                  (refs (querySelectorAll ''btn'' (body s)))
                  (innerWidth s \<le> 1024))) (body s),
       body_classList := tablet_classes (ref (querySelector ''sidebar'' (body s)))
                  (ref (getElementById ''sidebar'' (body s))) (innerWidth s \<le> 1024)
                  (body_classList s)\<rparr>"
  by (simp add: optimizeForTablet_def Let_def console_log_def showFullSidebar_nf
      optimizeCardsForTablet_def optimizeButtonsForTablet_def set_style_fold forEach_style
      refs_querySelectorAll keeps_rules selectors_simps map_dom_o tablet_node_def
      tablet_classes_def)

lemma optimizeForDesktop_nf:
  "optimizeForDesktop s =
     s\<lparr>console := console s @ [Applying Desktop],
       body := map (map_dom (desktop_node (ref (querySelector ''sidebar'' (body s)))
                  (ref (getElementById ''sidebar'' (body s)))
                  (ref (getElementById ''sidebarOverlay'' (body s)))
                  (refs (querySelectorAll ''card'' (body s)))
                  (refs (querySelectorAll ''btn'' (body s)))
                  (innerWidth s \<le> 1024))) (body s),
       body_classList := desktop_classes (ref (querySelector ''sidebar'' (body s)))
                  (ref (getElementById ''sidebar'' (body s))) (innerWidth s \<le> 1024)
                  (body_classList s)\<rparr>"
  by (simp add: optimizeForDesktop_def Let_def console_log_def showFullSidebar_nf
      restoreDefaultLayout_def set_style_fold forEach_style
      refs_querySelectorAll keeps_rules selectors_simps map_dom_o desktop_node_def
      desktop_classes_def)

lemma optimizeForMobile_nf:
  assumes "querySelectorAll ''table'' (body s) = []"
  shows "optimizeForMobile s =
     s\<lparr>console := console s @ [Applying Mobile],
       body := map (map_dom (mobile_node
                  (ref (getElementById ''sidebar'' (body s)))
                  (ref (getElementById ''sidebarOverlay'' (body s)))
                  (refs (querySelectorAll ''card'' (body s)))
                  (refs (querySelectorAll ''stat-card'' (body s)))
                  (refs (querySelectorAll ''btn'' (body s)))
                  (innerWidth s \<le> 1024))) (body s),
       body_classList := mobile_classes
                  (ref (getElementById ''sidebar'' (body s))) (innerWidth s \<le> 1024)
                  (body_classList s)\<rparr>"
  using assms
  by (simp add: optimizeForMobile_def Let_def console_log_def hideSidebar_def toggleSidebar_Some
      setSidebarVisibility_nf optimizeCardsForMobile_def optimizeButtonsForMobile_def
      optimizeTablesForMobile_def set_style_fold forEach_style querySelectorAll_map refs_map
      refs_querySelectorAll keeps_rules selectors_simps map_dom_o mobile_node_def comp_assoc
      mobile_classes_def)

lemma member_add: "c' \<in> set (classList_add c cs) \<longleftrightarrow> c' = c \<or> c' \<in> set cs"
  by (auto simp: classList_add_def)

lemma member_remove: "c' \<in> set (classList_remove c cs) \<longleftrightarrow> c' \<noteq> c \<and> c' \<in> set cs"
  by (auto simp: classList_remove_def)

lemma member_toggle:
  "c' \<in> set (classList_toggle c b cs) \<longleftrightarrow> (if c' = c then b else c' \<in> set cs)"
  by (auto simp: classList_toggle_def member_add member_remove)

lemma add_noop: "c \<in> set cs \<Longrightarrow> classList_add c cs = cs"
  by (simp add: classList_add_def)

lemma remove_noop: "c \<notin> set cs \<Longrightarrow> classList_remove c cs = cs"
  by (simp add: classList_remove_def)

lemma toggle_noop: "(c \<in> set cs) = b \<Longrightarrow> classList_toggle c b cs = cs"
  by (auto simp: classList_toggle_def add_noop remove_noop)

lemma toggle_idem: "classList_toggle c b (classList_toggle c b cs) = classList_toggle c b cs"
  by (rule toggle_noop) (simp add: member_toggle)

lemma sidebar_node_idem: "sidebar_node SB OV b m (sidebar_node SB OV b m a) = sidebar_node SB OV b m a"
proof -
  have "sidebar_node SB OV b m a' = a'" if "a' = sidebar_node SB OV b m a" for a'
    unfolding that
    by (cases "SB = {}"; cases "nid a \<in> SB"; cases "nid a \<in> OV")
       (simp_all add: sidebar_node_def on_def toggle_noop member_toggle)
  then show ?thesis by simp
qed

lemma full_sidebar_node_idem:
  "full_sidebar_node SF SB OV m (full_sidebar_node SF SB OV m a) = full_sidebar_node SF SB OV m a"
  by (cases "SF = {}"; cases "SB = {}"; cases "nid a \<in> SF"; cases "nid a \<in> SB";
      cases "nid a \<in> OV")
     (simp_all add: full_sidebar_node_def sidebar_node_def on_def toggle_noop member_toggle
        remove_noop member_remove)

lemma sidebar_node_set_style:
  "sidebar_node SB OV b m (set_style h a) = set_style h (sidebar_node SB OV b m a)"
  by (simp add: sidebar_node_def on_def set_style_def)

lemma full_sidebar_node_set_style:
  "full_sidebar_node SF SB OV m (set_style h a) = set_style h (full_sidebar_node SF SB OV m a)"
  by (simp add: full_sidebar_node_def sidebar_node_def on_def set_style_def)

lemma keeps_nid: "keeps g \<Longrightarrow> nid (g a) = nid a"
  by (simp add: keeps_def)

lemma set_style_twice: "set_style h (set_style k a) = set_style (h \<circ> k) a"
  by (simp add: set_style_def)

lemma set_style_nid: "nid (set_style h a) = nid a"
  by (simp add: set_style_def)

lemma tablet_node_idem:
  "tablet_node SF SB OV CARD BTN m (tablet_node SF SB OV CARD BTN m a)
     = tablet_node SF SB OV CARD BTN m a"
  by (cases "nid a \<in> CARD"; cases "nid a \<in> BTN")
     (simp_all add: tablet_node_def on_def full_sidebar_node_set_style full_sidebar_node_idem
        keeps_nid [OF keeps_full_sidebar_node] set_style_nid set_style_twice comp_def)

lemma desktop_node_idem:
  "desktop_node SF SB OV CARD BTN m (desktop_node SF SB OV CARD BTN m a)
     = desktop_node SF SB OV CARD BTN m a"
  by (cases "nid a \<in> CARD"; cases "nid a \<in> BTN")
     (simp_all add: desktop_node_def on_def full_sidebar_node_set_style full_sidebar_node_idem
        keeps_nid [OF keeps_full_sidebar_node] set_style_nid set_style_twice comp_def)

lemma mobile_node_idem:
  "mobile_node SB OV CARD STAT BTN m (mobile_node SB OV CARD STAT BTN m a)
     = mobile_node SB OV CARD STAT BTN m a"
  by (cases "nid a \<in> CARD"; cases "nid a \<in> STAT"; cases "nid a \<in> BTN")
     (simp_all add: mobile_node_def on_def sidebar_node_set_style sidebar_node_idem
        keeps_nid [OF keeps_sidebar_node] set_style_nid set_style_twice comp_def)

lemma keeps_tablet_node: "keeps (tablet_node SF SB OV CARD BTN m)"
  by (simp add: tablet_node_def keeps_rules)

lemma keeps_desktop_node: "keeps (desktop_node SF SB OV CARD BTN m)"
  by (simp add: desktop_node_def keeps_rules)

lemma keeps_mobile_node: "keeps (mobile_node SB OV CARD STAT BTN m)"
  by (simp add: mobile_node_def keeps_rules)

lemma sidebar_classes_idem:
  "sidebar_classes SB b m (sidebar_classes SB b m cs) = sidebar_classes SB b m cs"
  by (simp add: sidebar_classes_def add_noop remove_noop member_add member_remove)

lemma tablet_classes_idem:
  "tablet_classes SF SB m (tablet_classes SF SB m cs) = tablet_classes SF SB m cs"
  by (cases "SF = {}"; cases "SB = {}"; cases m)
     (simp_all add: tablet_classes_def full_sidebar_classes_def sidebar_classes_def
        add_noop remove_noop member_add member_remove)

lemma desktop_classes_idem:
  "desktop_classes SF SB m (desktop_classes SF SB m cs) = desktop_classes SF SB m cs"
  by (cases "SF = {}"; cases "SB = {}"; cases m)
     (simp_all add: desktop_classes_def full_sidebar_classes_def sidebar_classes_def
        add_noop remove_noop member_add member_remove)

lemma mobile_classes_idem:
  "mobile_classes SB m (mobile_classes SB m cs) = mobile_classes SB m cs"
  by (cases "SB = {}")
     (simp_all add: mobile_classes_def sidebar_classes_def
        add_noop remove_noop member_add member_remove)

lemma tablet_node_idem_o:
  "tablet_node SF SB OV CARD BTN m \<circ> tablet_node SF SB OV CARD BTN m
     = tablet_node SF SB OV CARD BTN m"
  by (rule ext) (simp add: tablet_node_idem)

lemma desktop_node_idem_o:
  "desktop_node SF SB OV CARD BTN m \<circ> desktop_node SF SB OV CARD BTN m
     = desktop_node SF SB OV CARD BTN m"
  by (rule ext) (simp add: desktop_node_idem)

lemma mobile_node_idem_o:
  "mobile_node SB OV CARD STAT BTN m \<circ> mobile_node SB OV CARD STAT BTN m
     = mobile_node SB OV CARD STAT BTN m"
  by (rule ext) (simp add: mobile_node_idem)

lemmas query_rules = ref_getElementById ref_querySelector refs_querySelectorAll selectors_simps

lemma optimizeForTablet_twice:
  "document (optimizeForTablet (optimizeForTablet s)) = document (optimizeForTablet s)"
  by (simp add: document_def optimizeForTablet_nf query_rules keeps_tablet_node map_dom_o
      tablet_node_idem_o tablet_classes_idem)

lemma optimizeForDesktop_twice:
  "document (optimizeForDesktop (optimizeForDesktop s)) = document (optimizeForDesktop s)"
  by (simp add: document_def optimizeForDesktop_nf query_rules keeps_desktop_node map_dom_o
      desktop_node_idem_o desktop_classes_idem)

lemma optimizeForMobile_twice:
  assumes "querySelectorAll ''table'' (body s) = []"
  shows "document (optimizeForMobile (optimizeForMobile s)) = document (optimizeForMobile s)"
proof -
  let ?s' = "optimizeForMobile s"
  have "querySelectorAll ''table'' (body ?s') = []"
    using assms
    by (simp add: optimizeForMobile_nf querySelectorAll_map keeps_mobile_node selectors_simps)
  then have "optimizeForMobile ?s' =
     ?s'\<lparr>console := console ?s' @ [Applying Mobile],
       body := map (map_dom (mobile_node
                  (ref (getElementById ''sidebar'' (body ?s')))
                  (ref (getElementById ''sidebarOverlay'' (body ?s')))
                  (refs (querySelectorAll ''card'' (body ?s')))
                  (refs (querySelectorAll ''stat-card'' (body ?s')))
                  (refs (querySelectorAll ''btn'' (body ?s')))
                  (innerWidth ?s' \<le> 1024))) (body ?s'),
       body_classList := mobile_classes
                  (ref (getElementById ''sidebar'' (body ?s'))) (innerWidth ?s' \<le> 1024)
                  (body_classList ?s')\<rparr>"
    by (rule optimizeForMobile_nf)
  then show ?thesis
    using assms
    by (simp add: document_def optimizeForMobile_nf query_rules keeps_mobile_node map_dom_o
        mobile_node_idem_o mobile_classes_idem)
qed

text \<open>Above 1024 pixels a call of \<open>toggleSidebar\<close> that finds the sidebar hides the overlay.\<close>

lemma toggleSidebar_as_set:
  "getElementById ''sidebar'' (body s) \<noteq> None \<Longrightarrow>
   \<exists>b. toggleSidebar s force = setSidebarVisibility s b"
  by (auto simp: toggleSidebar_def Let_def split: option.splits)

lemma overlay_hidden_after_set:
  assumes "1024 < innerWidth s" "getElementById ''sidebar'' (body s) \<noteq> None"
  shows "\<not> overlay_visible (setSidebarVisibility s b)"
proof (cases "getElementById ''sidebarOverlay'' (body s)")
  case None
  then show ?thesis
    by (simp add: overlay_visible_def setSidebarVisibility_nf getElementById_map
        keeps_sidebar_node)
next
  case (Some e)
  have "ref (getElementById ''sidebar'' (body s)) \<noteq> {}"
    using assms(2) by (auto simp: ref_def)
  then have "''visible'' \<notin> set (classList (sidebar_node
      (ref (getElementById ''sidebar'' (body s))) {nid e} b False e))"
    by (simp add: sidebar_node_def on_def member_toggle)
  then show ?thesis
    using Some assms(1)
    by (simp add: overlay_visible_def setSidebarVisibility_nf getElementById_map
        keeps_sidebar_node ref_Some)
qed

lemma overlay_hidden_above_1024:
  assumes "1024 < innerWidth s" "getElementById ''sidebar'' (body s) \<noteq> None"
  shows "\<not> overlay_visible (toggleSidebar s force)"
  using toggleSidebar_as_set [OF assms(2), of force] overlay_hidden_after_set [OF assms]
  by auto

text \<open>
  Wrapping a table adds a node and removes none, so the mobile policy makes every document
  with a table larger, and leaves it with a table.
\<close>

lemma length_nodes_wrap_in:
  "length (nodes (wrap_in e w t)) = length (nodes t) + hits e t"
proof (induction t)
  case (Element a ch)
  have "sum_list (map (\<lambda>c. length (nodes (wrap_in e w c))) ch)
          = sum_list (map (\<lambda>c. length (nodes c) + hits e c) ch)"
    using Element.IH by (simp cong: map_cong)
  then show ?case
    by (simp add: length_concat comp_def sum_list_addf)
qed

lemma length_all_nodes_wrap:
  "length (all_nodes (wrap e w d)) = length (all_nodes d) + sum_list (map (hits e) d)"
  by (simp add: all_nodes_def wrap_def length_concat comp_def length_nodes_wrap_in sum_list_addf)

lemma hits_positive: "nid e \<in> nid ` set (nodes t) \<Longrightarrow> 0 < hits e t"
proof (induction t)
  case (Element a ch)
  show ?case
  proof (cases "nid a = nid e")
    case True
    then show ?thesis by simp
  next
    case False
    then obtain c where c: "c \<in> set ch" "nid e \<in> nid ` set (nodes c)"
      using Element.prems by auto
    then have "0 < hits e c" using Element.IH by simp
    moreover have "hits e c \<le> sum_list (map (hits e) ch)"
      using c(1) by (simp add: member_le_sum_list)
    ultimately show ?thesis using False by simp
  qed
qed

lemma hits_doc_positive:
  assumes "nid e \<in> nid ` set (all_nodes d)"
  shows "0 < sum_list (map (hits e) d)"
proof -
  from assms obtain c where c: "c \<in> set d" "nid e \<in> nid ` set (nodes c)"
    by (auto simp: all_nodes_def)
  then have "0 < hits e c" by (simp add: hits_positive)
  moreover have "hits e c \<le> sum_list (map (hits e) d)"
    using c(1) by (simp add: member_le_sum_list)
  ultimately show ?thesis by simp
qed

lemma set_nodes_wrap_in: "set (nodes t) \<subseteq> set (nodes (wrap_in e w t))"
  by (induction t) auto

lemma set_all_nodes_wrap: "set (all_nodes d) \<subseteq> set (all_nodes (wrap e w d))"
  using set_nodes_wrap_in by (fastforce simp: all_nodes_def wrap_def)

lemma optimizeForMobile_general:
  "optimizeForMobile s =
     s\<lparr>console := console s @ [Applying Mobile],
       body := fold wrap_table
                 (map (mobile_node
                    (ref (getElementById ''sidebar'' (body s)))
                    (ref (getElementById ''sidebarOverlay'' (body s)))
                    (refs (querySelectorAll ''card'' (body s)))
                    (refs (querySelectorAll ''stat-card'' (body s)))
                    (refs (querySelectorAll ''btn'' (body s)))
                    (innerWidth s \<le> 1024)) (querySelectorAll ''table'' (body s)))
                 (map (map_dom (mobile_node
                    (ref (getElementById ''sidebar'' (body s)))
                    (ref (getElementById ''sidebarOverlay'' (body s)))
                    (refs (querySelectorAll ''card'' (body s)))
                    (refs (querySelectorAll ''stat-card'' (body s)))
                    (refs (querySelectorAll ''btn'' (body s)))
                    (innerWidth s \<le> 1024))) (body s)),
       body_classList := mobile_classes
                  (ref (getElementById ''sidebar'' (body s))) (innerWidth s \<le> 1024)
                  (body_classList s)\<rparr>"
  by (simp add: optimizeForMobile_def Let_def console_log_def hideSidebar_def toggleSidebar_Some
      setSidebarVisibility_nf optimizeCardsForMobile_def optimizeButtonsForMobile_def
      optimizeTablesForMobile_def set_style_fold forEach_style querySelectorAll_map refs_map
      refs_querySelectorAll keeps_rules selectors_simps map_dom_o mobile_node_def comp_assoc
      mobile_classes_def)

lemma length_all_nodes_mutate: "length (all_nodes (mutate e f d)) = length (all_nodes d)"
  by (simp add: mutate_on all_nodes_map)

lemma nids_mutate:
  assumes "\<And>a. nid (f a) = nid a"
  shows "nid ` set (all_nodes (mutate e f d)) = nid ` set (all_nodes d)"
proof -
  have "map nid (all_nodes (mutate e f d)) = map nid (all_nodes d)"
    by (simp add: mutate_on all_nodes_map on_def assms)
  then have "set (map nid (all_nodes (mutate e f d))) = set (map nid (all_nodes d))"
    by simp
  then show ?thesis by simp
qed

lemma length_wrap_table:
  "length (all_nodes d) \<le> length (all_nodes (wrap_table t d))"
  "nid t \<in> nid ` set (all_nodes d) \<Longrightarrow> length (all_nodes d) < length (all_nodes (wrap_table t d))"
proof -
  let ?d1 = "mutate t (\<lambda>a. a\<lparr>classList := classList_add ''table-responsive'' (classList a)\<rparr>) d"
  have len: "length (all_nodes (wrap_table t d))
          = length (all_nodes d) + sum_list (map (hits t) ?d1)"
    by (simp add: wrap_table_def Let_def length_all_nodes_wrap length_all_nodes_mutate)
  then show "length (all_nodes d) \<le> length (all_nodes (wrap_table t d))" by simp
  assume "nid t \<in> nid ` set (all_nodes d)"
  then have "nid t \<in> nid ` set (all_nodes ?d1)"
    by (simp add: nids_mutate)
  then have "0 < sum_list (map (hits t) ?d1)" by (rule hits_doc_positive)
  with len show "length (all_nodes d) < length (all_nodes (wrap_table t d))" by simp
qed

lemma length_fold_wrap_table:
  "length (all_nodes d) \<le> length (all_nodes (fold wrap_table ts d))"
proof (induction ts arbitrary: d)
  case Nil
  then show ?case by simp
next
  case (Cons t ts)
  have "length (all_nodes d) \<le> length (all_nodes (wrap_table t d))"
    by (rule length_wrap_table)
  also have "\<dots> \<le> length (all_nodes (fold wrap_table ts (wrap_table t d)))"
    by (rule Cons.IH)
  finally show ?case by simp
qed

lemma length_fold_wrap_table_strict:
  assumes "ts \<noteq> []" "nid (hd ts) \<in> nid ` set (all_nodes d)"
  shows "length (all_nodes d) < length (all_nodes (fold wrap_table ts d))"
proof -
  obtain t ts' where ts: "ts = t # ts'" using assms(1) by (cases ts) auto
  have "length (all_nodes d) < length (all_nodes (wrap_table t d))"
    using assms(2) ts by (simp add: length_wrap_table)
  also have "\<dots> \<le> length (all_nodes (fold wrap_table ts' (wrap_table t d)))"
    by (rule length_fold_wrap_table)
  finally show ?thesis using ts by simp
qed

lemma has_table_query: "has_table d \<longleftrightarrow> querySelectorAll ''table'' d \<noteq> []"
  by (auto simp: has_table_def querySelectorAll_def filter_empty_conv)

lemma has_table_wrap_table: "has_table d \<Longrightarrow> has_table (wrap_table t d)"
proof -
  let ?f = "on {nid t} (\<lambda>a. a\<lparr>classList := classList_add ''table-responsive'' (classList a)\<rparr>)"
  let ?d1 = "mutate t (\<lambda>a. a\<lparr>classList := classList_add ''table-responsive'' (classList a)\<rparr>) d"
  assume "has_table d"
  then obtain a where a: "a \<in> set (all_nodes d)" "''table'' \<in> set (classList a)"
    by (auto simp: has_table_def)
  have "?f a \<in> set (all_nodes ?d1)"
    using a(1) by (simp add: mutate_on all_nodes_map)
  moreover have "''table'' \<in> set (classList (?f a))"
    using a(2) by (simp add: on_def member_add)
  ultimately have "has_table ?d1" by (auto simp: has_table_def)
  then show ?thesis
    using set_all_nodes_wrap [of ?d1 t "table_wrapper (fresh ?d1)"]
    by (auto simp: has_table_def wrap_table_def Let_def)
qed

lemma has_table_fold: "has_table d \<Longrightarrow> has_table (fold wrap_table ts d)"
  by (induction ts arbitrary: d) (simp_all add: has_table_wrap_table)

lemma has_table_map: "keeps g \<Longrightarrow> has_table (map (map_dom g) d) = has_table d"
  by (simp add: has_table_query querySelectorAll_map selectors_simps)

lemma optimizeForMobile_grows:
  assumes "has_table (body s)"
  shows "length (all_nodes (body s)) < length (all_nodes (body (optimizeForMobile s)))"
    and "has_table (body (optimizeForMobile s))"
proof -
  let ?G = "mobile_node
              (ref (getElementById ''sidebar'' (body s)))
              (ref (getElementById ''sidebarOverlay'' (body s)))
              (refs (querySelectorAll ''card'' (body s)))
              (refs (querySelectorAll ''stat-card'' (body s)))
              (refs (querySelectorAll ''btn'' (body s)))
              (innerWidth s \<le> 1024)"
  let ?ts = "querySelectorAll ''table'' (body s)"
  let ?d = "map (map_dom ?G) (body s)"
  have body: "body (optimizeForMobile s) = fold wrap_table (map ?G ?ts) ?d"
    by (subst optimizeForMobile_general) simp
  have k: "keeps ?G" by (rule keeps_mobile_node)
  have ne: "?ts \<noteq> []" using assms by (simp add: has_table_query)
  then have "hd ?ts \<in> set ?ts" by simp
  then have "hd ?ts \<in> set (all_nodes (body s))" by (simp add: querySelectorAll_def)
  then have "?G (hd ?ts) \<in> set (all_nodes ?d)" by (simp add: all_nodes_map)
  then have "nid (hd (map ?G ?ts)) \<in> nid ` set (all_nodes ?d)"
    using ne by (simp add: hd_map)
  then have "length (all_nodes ?d) < length (all_nodes (fold wrap_table (map ?G ?ts) ?d))"
    using ne by (intro length_fold_wrap_table_strict) simp_all
  then show "length (all_nodes (body s)) < length (all_nodes (body (optimizeForMobile s)))"
    by (simp add: body all_nodes_map)
  have "has_table ?d" using assms k by (simp add: has_table_map)
  then show "has_table (body (optimizeForMobile s))"
    by (simp add: body has_table_fold)
qed

lemma optimizeForMobile_twice_differs:
  assumes "querySelectorAll ''table'' (body s) \<noteq> []"
  shows "document (optimizeForMobile (optimizeForMobile s)) \<noteq> document (optimizeForMobile s)"
proof -
  have "has_table (body s)" using assms by (simp add: has_table_query)
  then have "has_table (body (optimizeForMobile s))" by (rule optimizeForMobile_grows)
  then have "length (all_nodes (body (optimizeForMobile s)))
           < length (all_nodes (body (optimizeForMobile (optimizeForMobile s))))"
    by (rule optimizeForMobile_grows)
  then have "body (optimizeForMobile (optimizeForMobile s)) \<noteq> body (optimizeForMobile s)"
    by auto
  then show ?thesis by (simp add: document_def)
qed

text \<open>
  The document a layout policy leaves depends on the document and the width it starts
  from, not on the console or the recorded device.
\<close>

lemma optimizeForMobile_document:
  assumes "innerWidth s = innerWidth s'" "body s = body s'" "body_classList s = body_classList s'"
  shows "document (optimizeForMobile s) = document (optimizeForMobile s')"
  by (simp add: optimizeForMobile_general [of s] optimizeForMobile_general [of s'] document_def assms)

lemma optimizeForTablet_document:
  assumes "innerWidth s = innerWidth s'" "body s = body s'" "body_classList s = body_classList s'"
  shows "document (optimizeForTablet s) = document (optimizeForTablet s')"
  by (simp add: optimizeForTablet_nf [of s] optimizeForTablet_nf [of s'] document_def assms)

lemma optimizeForDesktop_document:
  assumes "innerWidth s = innerWidth s'" "body s = body s'" "body_classList s = body_classList s'"
  shows "document (optimizeForDesktop s) = document (optimizeForDesktop s')"
  by (simp add: optimizeForDesktop_nf [of s] optimizeForDesktop_nf [of s'] document_def assms)

lemma optimizeForDevice_document:
  assumes "currentDevice s = currentDevice s'" "innerWidth s = innerWidth s'"
    "body s = body s'" "body_classList s = body_classList s'"
  shows "document (optimizeForDevice s) = document (optimizeForDevice s')"
proof (cases "currentDevice s'")
  case Mobile
  then show ?thesis
    using assms by (simp add: optimizeForDevice_def optimizeForMobile_document [of s s'])
next
  case Tablet
  then show ?thesis
    using assms by (simp add: optimizeForDevice_def optimizeForTablet_document [of s s'])
next
  case Desktop
  then show ?thesis
    using assms by (simp add: optimizeForDevice_def optimizeForDesktop_document [of s s'])
qed

lemma detectDevice_document:
  "body (detectDevice s) = body s" "body_classList (detectDevice s) = body_classList s"
  by (simp_all add: detectDevice_def console_log_def Let_def)

lemma handleResize_document_change:
  assumes "device_of (innerWidth s) \<noteq> currentDevice s"
  shows "document (handleResize s)
    = document (optimizeForDevice (s\<lparr>currentDevice := device_of (innerWidth s)\<rparr>))"
proof -
  have "handleResize s = optimizeForDevice
      (console_log (Changed (currentDevice s) (device_of (innerWidth s))) (detectDevice s))"
    using assms by (simp add: handleResize_def Let_def detectDevice_device)
  moreover have "document (optimizeForDevice
      (console_log (Changed (currentDevice s) (device_of (innerWidth s))) (detectDevice s)))
    = document (optimizeForDevice (s\<lparr>currentDevice := device_of (innerWidth s)\<rparr>))"
    by (rule optimizeForDevice_document)
      (simp_all add: console_log_def detectDevice_device detectDevice_frame detectDevice_document)
  ultimately show ?thesis by simp
qed

lemma handleResize_document_same:
  assumes "device_of (innerWidth s) = currentDevice s"
  shows "document (handleResize s) = document s"
proof -
  have "handleResize s = detectDevice s"
    using assms by (simp add: handleResize_def Let_def detectDevice_device)
  then show ?thesis
    by (simp add: document_def detectDevice_document)
qed

lemma resize_document_same:
  "device_of w = currentDevice s \<Longrightarrow> document (resize w s) = document s"
  using handleResize_document_same [of "s\<lparr>innerWidth := w\<rparr>"]
  by (simp add: resize_def document_def)

lemma resize_document_change:
  "device_of w \<noteq> currentDevice s \<Longrightarrow>
   document (resize w s)
     = document (optimizeForDevice (s\<lparr>innerWidth := w, currentDevice := device_of w\<rparr>))"
  using handleResize_document_change [of "s\<lparr>innerWidth := w\<rparr>"]
  by (simp add: resize_def)

lemma resizes_document_same:
  "\<forall>w\<in>set ws. device_of w = currentDevice s \<Longrightarrow> document (resizes ws s) = document s"
proof (induction ws arbitrary: s)
  case Nil
  then show ?case by (simp add: resizes_def)
next
  case (Cons w ws)
  have w: "device_of w = currentDevice s" using Cons.prems by simp
  then have "\<forall>v\<in>set ws. device_of v = currentDevice (resize w s)"
    using Cons.prems by (simp add: resize_frame)
  then have "document (resizes ws (resize w s)) = document (resize w s)"
    by (rule Cons.IH)
  then show ?case
    using w by (simp add: resizes_def resize_document_same)
qed

lemma resizes_document_change:
  assumes "\<forall>v\<in>set (w # ws). device_of v = d" "currentDevice s \<noteq> d"
  shows "document (resizes (w # ws) s)
    = document (optimizeForDevice (s\<lparr>innerWidth := w, currentDevice := d\<rparr>))"
proof -
  have w: "device_of w = d" using assms(1) by simp
  have "\<forall>v\<in>set ws. device_of v = currentDevice (resize w s)"
    using assms(1) by (simp add: resize_frame)
  then have "document (resizes ws (resize w s)) = document (resize w s)"
    by (rule resizes_document_same)
  moreover have "document (resize w s)
      = document (optimizeForDevice (s\<lparr>innerWidth := w, currentDevice := d\<rparr>))"
    using resize_document_change [of w s] w assms(2) by simp
  ultimately show ?thesis by (simp add: resizes_def)
qed

lemma init_document:
  "document (init s)
     = document (optimizeForDevice (s\<lparr>currentDevice := device_of (innerWidth s)\<rparr>))"
proof -
  have "document (init s) = document (optimizeForDevice (detectDevice s))"
    by (simp add: init_def console_log_def document_def)
  also have "\<dots> = document (optimizeForDevice (s\<lparr>currentDevice := device_of (innerWidth s)\<rparr>))"
    by (rule optimizeForDevice_document)
      (simp_all add: detectDevice_device detectDevice_frame detectDevice_document)
  finally show ?thesis .
qed

lemma optimizeForDevice_as_policy:
  "document (optimizeForDevice (s\<lparr>currentDevice := d\<rparr>))
     = document (case d of Mobile \<Rightarrow> optimizeForMobile s | Tablet \<Rightarrow> optimizeForTablet s
          | Desktop \<Rightarrow> optimizeForDesktop s)"
proof (cases d)
  case Mobile
  then show ?thesis
    by (simp add: optimizeForDevice_def optimizeForMobile_document [of "s\<lparr>currentDevice := Mobile\<rparr>" s])
next
  case Tablet
  then show ?thesis
    by (simp add: optimizeForDevice_def optimizeForTablet_document [of "s\<lparr>currentDevice := Tablet\<rparr>" s])
next
  case Desktop
  then show ?thesis
    by (simp add: optimizeForDevice_def optimizeForDesktop_document [of "s\<lparr>currentDevice := Desktop\<rparr>" s])
qed

section \<open>Claims about the responsive manager\<close>

text \<open>
  C3. The device class that \<open>detectDevice\<close> records depends on the width of the viewport
  alone: it is \<open>Mobile\<close> below 768, \<open>Tablet\<close> below 1024 and \<open>Desktop\<close> from 1024 on. The
  widths 320, 767, 768, 1023, 1024 and 1920 give mobile, mobile, tablet, tablet, desktop
  and desktop.
\<close>

theorem device_class_of_width:
  "currentDevice (detectDevice s) = device_of (innerWidth s)
   \<and> device_of w = (if w < 768 then Mobile else if w < 1024 then Tablet else Desktop)
   \<and> map device_of [320, 767, 768, 1023, 1024, 1920]
       = [Mobile, Mobile, Tablet, Tablet, Desktop, Desktop]"
  by (simp add: detectDevice_device device_of_eq)

text \<open>
  C4. \<open>handleResize\<close> records the device class of the current width. Exactly when that class
  differs from the recorded one it applies the layout policy of the new class: the
  document it leaves is the one that policy makes of the document it found, and the
  console has the line of the change and the line the policy writes; when the class is the
  recorded one, the document is left as it is and no policy line is written. Over a
  sequence of resizes whose widths all lie in one band \<open>d\<close>, a policy is applied once if the
  sequence is not empty and the recorded device was not \<open>d\<close> (the document is then what the
  policy of \<open>d\<close> made of it at the first width), and not at all otherwise (the document is
  unchanged). After \<open>init\<close>, which applies the policy of the initial width, resizes within
  the band of that width apply none, so the policy of that band has been applied exactly
  once, by \<open>init\<close>.
\<close>

theorem handleResize_applies_policy_on_change:
  "console (handleResize s) =
     console s @ [Current (device_of (innerWidth s)) (innerWidth s)]
       @ (if device_of (innerWidth s) \<noteq> currentDevice s
          then [Changed (currentDevice s) (device_of (innerWidth s)),
                Applying (device_of (innerWidth s))]
          else [])
   \<and> policy_applications (handleResize s) =
       policy_applications s + (if device_of (innerWidth s) \<noteq> currentDevice s then 1 else 0)
   \<and> currentDevice (handleResize s) = device_of (innerWidth s)
   \<and> (device_of (innerWidth s) = currentDevice s \<longrightarrow> document (handleResize s) = document s)
   \<and> (device_of (innerWidth s) \<noteq> currentDevice s \<longrightarrow>
        document (handleResize s) =
          document (case device_of (innerWidth s) of
                      Mobile \<Rightarrow> optimizeForMobile s
                    | Tablet \<Rightarrow> optimizeForTablet s
                    | Desktop \<Rightarrow> optimizeForDesktop s))
   \<and> ((\<forall>w\<in>set ws. device_of w = d) \<longrightarrow>
        policy_applications (resizes ws s) =
          policy_applications s + (if ws \<noteq> [] \<and> currentDevice s \<noteq> d then 1 else 0))
   \<and> ((\<forall>w\<in>set ws. device_of w = currentDevice s) \<longrightarrow> document (resizes ws s) = document s)
   \<and> ((\<forall>w\<in>set (v # vs). device_of w = d) \<and> currentDevice s \<noteq> d \<longrightarrow>
        document (resizes (v # vs) s) =
          document (case d of
                      Mobile \<Rightarrow> optimizeForMobile (s\<lparr>innerWidth := v\<rparr>)
                    | Tablet \<Rightarrow> optimizeForTablet (s\<lparr>innerWidth := v\<rparr>)
                    | Desktop \<Rightarrow> optimizeForDesktop (s\<lparr>innerWidth := v\<rparr>)))
   \<and> document (init s) =
        document (case device_of (innerWidth s) of
                    Mobile \<Rightarrow> optimizeForMobile s
                  | Tablet \<Rightarrow> optimizeForTablet s
                  | Desktop \<Rightarrow> optimizeForDesktop s)
   \<and> ((\<forall>w\<in>set ws. device_of w = device_of (innerWidth s)) \<longrightarrow>
        policy_applications (resizes ws (init s)) = policy_applications s + 1
        \<and> document (resizes ws (init s)) = document (init s))"
proof -
  have 1: "policy_applications (resizes ws (init s)) = policy_applications s + 1
      \<and> document (resizes ws (init s)) = document (init s)"
    if "\<forall>w\<in>set ws. device_of w = device_of (innerWidth s)"
  proof -
    have "\<forall>w\<in>set ws. device_of w = currentDevice (init s)"
      using that by (simp add: init_frame)
    then have "document (resizes ws (init s)) = document (init s)"
      by (rule resizes_document_same)
    then show ?thesis
      using resizes_same_band [OF that, of "init s"] by (simp add: init_frame)
  qed
  have 2: "document (handleResize s) = document s"
    if "device_of (innerWidth s) = currentDevice s"
    using that by (rule handleResize_document_same)
  have 3: "document (handleResize s) =
      document (case device_of (innerWidth s) of
                  Mobile \<Rightarrow> optimizeForMobile s
                | Tablet \<Rightarrow> optimizeForTablet s
                | Desktop \<Rightarrow> optimizeForDesktop s)"
    if "device_of (innerWidth s) \<noteq> currentDevice s"
    using handleResize_document_change [OF that]
    by (simp only: optimizeForDevice_as_policy)
  have 4: "document (resizes ws s) = document s"
    if "\<forall>w\<in>set ws. device_of w = currentDevice s"
    using that by (rule resizes_document_same)
  have 5: "document (resizes (v # vs) s) =
      document (case d of
                  Mobile \<Rightarrow> optimizeForMobile (s\<lparr>innerWidth := v\<rparr>)
                | Tablet \<Rightarrow> optimizeForTablet (s\<lparr>innerWidth := v\<rparr>)
                | Desktop \<Rightarrow> optimizeForDesktop (s\<lparr>innerWidth := v\<rparr>))"
    if "\<forall>w\<in>set (v # vs). device_of w = d" "currentDevice s \<noteq> d"
    using resizes_document_change [OF that]
      optimizeForDevice_as_policy [where s = "s\<lparr>innerWidth := v\<rparr>" and d = d]
    by simp
  have 6: "document (init s) =
      document (case device_of (innerWidth s) of
                  Mobile \<Rightarrow> optimizeForMobile s
                | Tablet \<Rightarrow> optimizeForTablet s
                | Desktop \<Rightarrow> optimizeForDesktop s)"
    by (simp only: init_document optimizeForDevice_as_policy)
  have 7: "policy_applications (resizes ws s) =
      policy_applications s + (if ws \<noteq> [] \<and> currentDevice s \<noteq> d then 1 else 0)"
    if "\<forall>w\<in>set ws. device_of w = d"
    using that by (rule resizes_same_band)
  note 8 = handleResize_frame(1,3) [of s] handleResize_applications [of s]
  from 1 2 3 4 5 6 7 8 show ?thesis by blast
qed

theorem handleResize_applies_policy_on_change_witness:
  "policy_applications (resizes [800, 900, 1000] (sample_page 1920)) = 1
   \<and> document (resizes [800, 900, 1000] (sample_page 1920))
       = document (optimizeForTablet (sample_page 800))
   \<and> document (resizes [1100, 1200] (sample_page 1920)) = document (sample_page 1920)
   \<and> policy_applications (resizes [800, 900, 1000] (init (sample_page 800))) = 1
   \<and> document (resizes [800, 900, 1000] (init (sample_page 800)))
       = document (optimizeForTablet (sample_page 800))
   \<and> document (handleResize (sample_page 1920)) = document (sample_page 1920)
   \<and> document (handleResize (sample_page 800)) = document (optimizeForTablet (sample_page 800))
   \<and> document (handleResize (sample_page 800)) \<noteq> document (sample_page 800)"
proof -
  have band: "\<forall>w\<in>set [800, 900, 1000]. device_of w = Tablet"
    "\<forall>w\<in>set [1100, 1200]. device_of w = currentDevice (sample_page 1920)"
    "\<forall>w\<in>set [800, 900, 1000]. device_of w = device_of (innerWidth (sample_page 800))"
    "currentDevice (sample_page 1920) \<noteq> Tablet"
    "device_of (innerWidth (sample_page 1920)) = currentDevice (sample_page 1920)"
    "device_of (innerWidth (sample_page 800)) \<noteq> currentDevice (sample_page 800)"
    "device_of (innerWidth (sample_page 800)) = Tablet"
    by (simp_all add: device_of_eq sample_page_def)
  have page: "(sample_page 1920)\<lparr>innerWidth := 800\<rparr> = sample_page 800"
    "policy_applications (sample_page 1920) = 0" "policy_applications (sample_page 800) = 0"
    by (simp_all add: sample_page_def policy_applications_def)
  have differs: "document (optimizeForTablet (sample_page 800)) \<noteq> document (sample_page 800)"
    by code_simp
  have a: "policy_applications (resizes [800, 900, 1000] (sample_page 1920)) = 1
    \<and> document (resizes [800, 900, 1000] (sample_page 1920))
        = document (optimizeForTablet (sample_page 800))
    \<and> document (handleResize (sample_page 1920)) = document (sample_page 1920)"
    using band page handleResize_applies_policy_on_change
      [where ws = "[800, 900, 1000]" and v = 800 and vs = "[900, 1000]" and d = Tablet
         and s = "sample_page 1920"]
    by simp
  have b: "document (resizes [1100, 1200] (sample_page 1920)) = document (sample_page 1920)"
    using band handleResize_applies_policy_on_change
      [where ws = "[1100, 1200]" and s = "sample_page 1920"]
    by blast
  have c: "policy_applications (resizes [800, 900, 1000] (init (sample_page 800))) = 1
    \<and> document (resizes [800, 900, 1000] (init (sample_page 800)))
        = document (optimizeForTablet (sample_page 800))
    \<and> document (handleResize (sample_page 800)) = document (optimizeForTablet (sample_page 800))"
    using band page handleResize_applies_policy_on_change
      [where ws = "[800, 900, 1000]" and s = "sample_page 800"]
    by simp
  from a b c differs show ?thesis by simp
qed

text \<open>
  C5, as stated, fails for the mobile policy: \<open>optimizeTablesForMobile\<close> puts every element
  of class \<open>table\<close> into a new wrapper each time it runs, so a second application on a page
  with a table leaves the table inside two wrappers.
\<close>

theorem layout_policy_twice_counterexample:
  "document (optimizeForMobile (optimizeForMobile (sample_page 500)))
     \<noteq> document (optimizeForMobile (sample_page 500))"
  by code_simp

text \<open>
  C5, amended. The tablet policy and the desktop policy are idempotent on every document:
  applying the policy twice leaves the classes of \<open>body\<close>, the classes and styles of the
  elements and the tree as one application does. The mobile policy is idempotent exactly
  on the documents that have no element of class \<open>table\<close>.
\<close>

theorem layout_policy_twice:
  "document (optimizeForTablet (optimizeForTablet s)) = document (optimizeForTablet s)
   \<and> document (optimizeForDesktop (optimizeForDesktop s)) = document (optimizeForDesktop s)
   \<and> (document (optimizeForMobile (optimizeForMobile s)) = document (optimizeForMobile s)
        \<longleftrightarrow> querySelectorAll ''table'' (body s) = [])"
  using optimizeForMobile_twice [of s] optimizeForMobile_twice_differs [of s]
  by (auto simp: optimizeForTablet_twice optimizeForDesktop_twice)

theorem layout_policy_twice_witness:
  "document (optimizeForMobile (optimizeForMobile (page_without_table 500)))
     = document (optimizeForMobile (page_without_table 500))
   \<and> document (optimizeForTablet (optimizeForTablet (sample_page 800)))
     = document (optimizeForTablet (sample_page 800))"
  using layout_policy_twice [of "page_without_table 500"] layout_policy_twice [of "sample_page 800"]
  by (simp add: page_without_table_def querySelectorAll_def all_nodes_def)

text \<open>
  C6. The claim does not hold of the code at the width 1024: \<open>detectDevice\<close> takes 1024
  for a desktop (\<open>width < 1024\<close> is the tablet test), while \<open>setSidebarVisibility\<close> shows
  the overlay for \<open>innerWidth <= 1024\<close>. On the sample page at width 1024 the device is
  \<open>Desktop\<close> and the overlay is visible after \<open>toggleSidebar(true)\<close>, after
  \<open>toggleSidebar()\<close> and right after \<open>init\<close>. Above 1024 the overlay is hidden after every
  call that finds the sidebar (\<open>overlay_hidden_above_1024\<close>).
\<close>

theorem overlay_at_width_1024:
  "device_of 1024 = Desktop
   \<and> overlay_visible (toggleSidebar (sample_page 1024) (Some True))
   \<and> overlay_visible (toggleSidebar (sample_page 1024) None)
   \<and> currentDevice (init (sample_page 1024)) = Desktop
   \<and> overlay_visible (init (sample_page 1024))"
  by code_simp

end
